theory Spec2Isabelle
  imports Complex_Main "HOL-Library.Multiset"
begin

section \<open>Python values and exceptions\<close>

text \<open>
  The parsers of \<^verbatim>\<open>api/parsers.py\<close> walk the JSON body of an MBTA V3 response with
  \<^verbatim>\<open>dict.get\<close>, truthiness tests and \<^verbatim>\<open>isinstance\<close>. A payload is a value of
  \<open>json\<close>; a Python dict is an association list read with \<open>map_of\<close>. A Python string is
  the list of the bytes of its UTF-8 encoding, so two strings are equal when their byte
  lists are; where the code counts characters (iteration, subscript, slice) the model
  groups the bytes of each code point. Python floats are modelled as reals: the parsers
  only carry them around. Every exception the interpreter can raise on such a value is
  a branch \<open>Inl\<close> of the result.
\<close>

datatype error = AttributeError | TypeError | ValueError | OverflowError | KeyError | IndexError

datatype json =
    JNull
  | JBool bool
  | JInt int
  | JFloat real
  | JStr string
  | JList "json list"
  | JObj "(string \<times> json) list"

definition bindE :: "error + 'a \<Rightarrow> ('a \<Rightarrow> error + 'b) \<Rightarrow> error + 'b" where
  "bindE m f = (case m of Inl e \<Rightarrow> Inl e | Inr x \<Rightarrow> f x)"

text \<open>Truth value of a Python object, as \<^verbatim>\<open>if x\<close>, \<^verbatim>\<open>not x\<close> and \<^verbatim>\<open>x or y\<close> read it.\<close>

fun truthy :: "json \<Rightarrow> bool" where
  "truthy JNull = False"
| "truthy (JBool b) = b"
| "truthy (JInt i) = (i \<noteq> 0)"
| "truthy (JFloat r) = (r \<noteq> 0)"
| "truthy (JStr s) = (s \<noteq> [])"
| "truthy (JList xs) = (xs \<noteq> [])"
| "truthy (JObj kvs) = (kvs \<noteq> [])"

definition py_or :: "json \<Rightarrow> json \<Rightarrow> json" where
  "py_or a b = (if truthy a then a else b)"

definition is_dict :: "json \<Rightarrow> bool" where
  "is_dict x = (case x of JObj kvs \<Rightarrow> True | _ \<Rightarrow> False)"

text \<open>\<^verbatim>\<open>d.get(k, dflt)\<close>: only a dict has the method.\<close>

definition py_get :: "json \<Rightarrow> string \<Rightarrow> json \<Rightarrow> error + json" where
  "py_get d k dflt =
     (case d of
        JObj kvs \<Rightarrow> Inr (case map_of kvs k of Some v \<Rightarrow> v | None \<Rightarrow> dflt)
      | _ \<Rightarrow> Inl AttributeError)"

text \<open>
  The characters of a string: in UTF-8 the bytes \<open>10xxxxxx\<close> continue the code point
  that the byte before them began.
\<close>

definition is_continuation :: "char \<Rightarrow> bool" where
  "is_continuation c = (128 \<le> (of_char c :: nat) \<and> (of_char c :: nat) < 192)"

fun code_points :: "string \<Rightarrow> string list" where
  "code_points [] = []"
| "code_points [c] = [[c]]"
| "code_points (c # d # ds) =
     (if is_continuation d then
        (case code_points (d # ds) of
           [] \<Rightarrow> [[c]]
         | g # gs \<Rightarrow> (c # g) # gs)
      else [c] # code_points (d # ds))"

text \<open>
  \<^verbatim>\<open>for x in v\<close>: a list yields its elements, a dict its keys, a string its characters;
  nothing else is iterable.
\<close>

fun py_iter :: "json \<Rightarrow> error + json list" where
  "py_iter (JList xs) = Inr xs"
| "py_iter (JObj kvs) = Inr (map JStr (remdups (map fst kvs)))"
| "py_iter (JStr s) = Inr (map JStr (code_points s))"
| "py_iter v = Inl TypeError"

text \<open>
  Dictionary keys. Lists and dicts are unhashable; \<^verbatim>\<open>True\<close>, \<^verbatim>\<open>1\<close> and \<^verbatim>\<open>1.0\<close> are
  the same key.
\<close>

datatype pykey = KNone | KNum real | KStr string

fun py_key :: "json \<Rightarrow> error + pykey" where
  "py_key JNull = Inr KNone"
| "py_key (JBool b) = Inr (KNum (if b then 1 else 0))"
| "py_key (JInt i) = Inr (KNum (of_int i))"
| "py_key (JFloat r) = Inr (KNum r)"
| "py_key (JStr s) = Inr (KStr s)"
| "py_key (JList xs) = Inl TypeError"
| "py_key (JObj kvs) = Inl TypeError"

text \<open>\<^verbatim>\<open>x == n\<close> for an integer literal \<open>n\<close>: numbers compare by value, booleans are 0 and 1.\<close>

fun py_eq_int :: "json \<Rightarrow> int \<Rightarrow> bool" where
  "py_eq_int (JInt i) n = (i = n)"
| "py_eq_int (JBool b) n = ((if b then 1 else 0) = n)"
| "py_eq_int (JFloat r) n = (r = of_int n)"
| "py_eq_int v n = False"

section \<open>Rows and the environment\<close>

text \<open>
  A pandas data frame is the list of its rows, a row a record of its columns. An aware
  datetime in UTC is the number of microseconds since 0001-01-01T00:00:00Z (Python's
  resolution); \<open>None\<close> is a missing time.
\<close>

record departure_row =
  Destination :: json
  Scheduled_Departure_Time :: "int option"
  Actual_Estimated_Departure_Time :: "int option"
  Departure_Status :: string

text \<open>
  What the module takes from its libraries and from the clock:
  \<^item> \<open>fromisoformat\<close>: \<^verbatim>\<open>datetime.fromisoformat\<close>; \<open>None\<close> is its ValueError, otherwise the
    wall-clock reading (microseconds since 0001-01-01T00:00:00) and the UTC offset in
    microseconds, \<open>None\<close> for a naive datetime;
  \<^item> \<open>ZoneInfo\<close>: \<open>None\<close> when \<^verbatim>\<open>from zoneinfo import ZoneInfo\<close> failed, otherwise the UTC
    offset of \<^verbatim>\<open>ZoneInfo("America/New_York")\<close> at a wall-clock reading;
  \<^item> \<open>now\<close>: \<^verbatim>\<open>datetime.now(timezone.utc)\<close>;
  \<^item> \<open>tie_rank\<close>: where the kernel of pandas' default sort, \<^verbatim>\<open>kind="quicksort"\<close>, puts
    the rows of equal key: \<open>tie_rank keys i\<close> ranks row \<open>i\<close> of a frame with the key column
    \<open>keys\<close> among the rows that have its key;
  \<^item> \<open>str_isdigit\<close>: \<^verbatim>\<open>str.isdigit\<close>, and \<open>int_of_str\<close>: the builtin \<^verbatim>\<open>int\<close> on a string,
    \<open>None\<close> its ValueError;
  \<^item> \<open>float_of_str\<close>: \<^verbatim>\<open>float(s)\<close> on a string, \<open>None\<close> its ValueError;
  \<^item> \<open>pl\<close>: \<open>None\<close> when \<^verbatim>\<open>import polyline\<close> failed, otherwise \<^verbatim>\<open>pl.decode(s, precision=5)\<close>,
    \<open>None\<close> where it raises, else the (lat, lon) pairs;
  \<^item> \<open>py_str\<close>: the builtin \<^verbatim>\<open>str\<close>;
  \<^item> \<open>py_eq\<close>: the operator \<^verbatim>\<open>==\<close> on two JSON values;
  \<^item> \<open>strftime_HM\<close>: \<^verbatim>\<open>strftime("%H:%M")\<close> of an instant, after
    \<^verbatim>\<open>astimezone(ZoneInfo("America/New_York"))\<close> when the flag is set;
  \<^item> \<open>round1\<close>: \<^verbatim>\<open>round(x, 1)\<close>.
\<close>

record env =
  fromisoformat :: "string \<Rightarrow> (int \<times> int option) option"
  ZoneInfo :: "(int \<Rightarrow> int) option"
  now :: int
  tie_rank :: "int option list \<Rightarrow> nat \<Rightarrow> nat"
  str_isdigit :: "string \<Rightarrow> bool"
  int_of_str :: "string \<Rightarrow> int option"
  float_of_str :: "string \<Rightarrow> real option"
  pl :: "(string \<Rightarrow> (real \<times> real) list option) option"
  py_str :: "json \<Rightarrow> string"
  py_eq :: "json \<Rightarrow> json \<Rightarrow> bool"
  strftime_HM :: "bool \<Rightarrow> int \<Rightarrow> string"
  round1 :: "real \<Rightarrow> real"

section \<open>Time Normalizer: \<^verbatim>\<open>_parse_iso\<close>\<close>

text \<open>\<^verbatim>\<open>s.replace("Z", "+00:00")\<close> replaces every \<^verbatim>\<open>Z\<close>.\<close>

definition replace_Z :: "string \<Rightarrow> string" where
  "replace_Z s = concat (map (\<lambda>c. if c = CHR ''Z'' then ''+00:00'' else [c]) s)"

text \<open>\<^verbatim>\<open>datetime.max\<close> is 9999-12-31T23:59:59.999999, day 3652059 of the calendar.\<close>

definition MAXDT :: int where
  "MAXDT = 3652059 * 86400000000 - 1"

text \<open>
  \<^verbatim>\<open>dt.astimezone(timezone.utc)\<close> of a datetime with wall-clock reading \<open>wall\<close> and UTC
  offset \<open>off\<close>: \<^verbatim>\<open>dt - offset\<close>, which raises OverflowError outside
  \<^verbatim>\<open>datetime.min .. datetime.max\<close>.
\<close>

definition astimezone_utc :: "int \<Rightarrow> int \<Rightarrow> error + int option" where
  "astimezone_utc wall off =
     (if 0 \<le> wall - off \<and> wall - off \<le> MAXDT then Inr (Some (wall - off))
      else Inl OverflowError)"

text \<open>
  \<^verbatim>\<open>
  def _parse_iso(s):
      if not s: return None
      s = s.replace("Z", "+00:00")
      dt = datetime.fromisoformat(s)
      if dt.tzinfo is None and ZoneInfo is not None:
          dt = dt.replace(tzinfo=ZoneInfo(MBTA_TZ)).astimezone(timezone.utc)
      elif dt.tzinfo is None:
          dt = dt.replace(tzinfo=timezone.utc)
      else:
          dt = dt.astimezone(timezone.utc)
      return dt
  \<close>
  A truthy value that is not a string has no \<^verbatim>\<open>replace\<close> method.
\<close>

definition parse_iso :: "env \<Rightarrow> json \<Rightarrow> error + int option" where
  "parse_iso E s =
     (if \<not> truthy s then Inr None
      else case s of
        JStr str \<Rightarrow>
          (case fromisoformat E (replace_Z str) of
             None \<Rightarrow> Inl ValueError
           | Some (wall, tzinfo) \<Rightarrow>
               (case tzinfo of
                  None \<Rightarrow>
                    (case ZoneInfo E of
                       Some utcoffset \<Rightarrow> astimezone_utc wall (utcoffset wall)
                     | None \<Rightarrow> Inr (Some wall))
                | Some off \<Rightarrow> astimezone_utc wall off))
      | _ \<Rightarrow> Inl AttributeError)"

section \<open>Status Deriver: \<^verbatim>\<open>_derive_status\<close>\<close>

text \<open>
  \<^verbatim>\<open>
  def _derive_status(scheduled_dt, predicted_dt, threshold_minutes=2):
      if predicted_dt is None: return "Cancelled"
      if scheduled_dt is None: return "On Time"
      delay_sec = (predicted_dt - scheduled_dt).total_seconds()
      if delay_sec <= threshold_minutes * 60: return "On Time"
      return "Delayed"
  \<close>
  \<^verbatim>\<open>total_seconds()\<close> is the difference in microseconds divided by \<open>10^6\<close>, so the
  comparison with \<^verbatim>\<open>threshold_minutes * 60\<close> is the comparison of the microseconds with
  \<open>threshold_minutes * 60 * 10^6\<close>.
\<close>

definition derive_status :: "int option \<Rightarrow> int option \<Rightarrow> int \<Rightarrow> string" where
  "derive_status scheduled_dt predicted_dt threshold_minutes =
     (case predicted_dt of
        None \<Rightarrow> ''Cancelled''
      | Some p \<Rightarrow>
          (case scheduled_dt of
             None \<Rightarrow> ''On Time''
           | Some s \<Rightarrow>
               if p - s \<le> threshold_minutes * 60 * 1000000 then ''On Time'' else ''Delayed''))"

section \<open>Resource Resolver: \<^verbatim>\<open>_build_included_lookup\<close>\<close>

text \<open>
  \<^verbatim>\<open>
  def _build_included_lookup(included_list):
      lookup = {}
      for inc in included_list or []:
          key = (inc.get("type"), inc.get("id"))
          lookup[key] = inc
      return lookup
  \<close>
\<close>

type_synonym lookup = "pykey \<times> pykey \<Rightarrow> json option"

fun included_loop :: "json list \<Rightarrow> lookup \<Rightarrow> error + lookup" where
  "included_loop [] lookup = Inr lookup"
| "included_loop (inc # rest) lookup =
     bindE (py_get inc ''type'' JNull) (\<lambda>ty.
     bindE (py_get inc ''id'' JNull) (\<lambda>ident.
     bindE (py_key ty) (\<lambda>kt.
     bindE (py_key ident) (\<lambda>ki.
     included_loop rest (lookup((kt, ki) \<mapsto> inc))))))"

definition build_included_lookup :: "json \<Rightarrow> error + lookup" where
  "build_included_lookup included_list =
     bindE (py_iter (py_or included_list (JList []))) (\<lambda>incs. included_loop incs Map.empty)"

text \<open>\<^verbatim>\<open>included.get((ty, ident))\<close>: hashing the key raises on a list or a dict.\<close>

definition included_get :: "lookup \<Rightarrow> string \<Rightarrow> json \<Rightarrow> error + json" where
  "included_get included ty ident =
     bindE (py_key ident) (\<lambda>k.
     Inr (case included (KStr ty, k) of Some res \<Rightarrow> res | None \<Rightarrow> JNull))"

text \<open>\<^verbatim>\<open>included.get((ty, ident)) if ident else {}\<close>\<close>

definition resolve :: "lookup \<Rightarrow> string \<Rightarrow> json \<Rightarrow> error + json" where
  "resolve included ty ident =
     (if truthy ident then included_get included ty ident else Inr (JObj []))"

text \<open>
  The two lines every flattener repeats for a relationship \<open>name\<close>:
  \<^verbatim>\<open>
  ref = (rels.get(name) or {}).get("data")
  ref = ref.get("id") if isinstance(ref, dict) else None
  \<close>
\<close>

definition rel_id :: "json \<Rightarrow> string \<Rightarrow> error + json" where
  "rel_id rels name =
     bindE (py_get rels name JNull) (\<lambda>r.
     bindE (py_get (py_or r (JObj [])) ''data'' JNull) (\<lambda>ref.
     if is_dict ref then py_get ref ''id'' JNull else Inr JNull))"

section \<open>Record Flattener: departures and arrivals\<close>

text \<open>
  \<^verbatim>\<open>
  if direction_id is not None and not isinstance(direction_id, int):
      direction_id = int(direction_id) if str(direction_id).isdigit() else direction_id
  \<close>
  Of the JSON values that are neither None nor int (bool included), only a string can
  print as digits alone: a float prints with a point or an exponent, a list and a dict
  with brackets. \<^verbatim>\<open>int\<close> raises ValueError on a string of digits that it does not
  convert (a superscript digit; more digits than CPython's limit).
\<close>

definition direction_id_of :: "env \<Rightarrow> json \<Rightarrow> error + json" where
  "direction_id_of E d =
     (case d of
        JStr s \<Rightarrow>
          if str_isdigit E s then
            (case int_of_str E s of Some n \<Rightarrow> Inr (JInt n) | None \<Rightarrow> Inl ValueError)
          else Inr d
      | _ \<Rightarrow> Inr d)"

text \<open>\<^verbatim>\<open>a or b\<close> on optional datetimes: a datetime is always truthy.\<close>

definition dt_or :: "int option \<Rightarrow> int option \<Rightarrow> int option" where
  "dt_or a b = (case a of Some x \<Rightarrow> Some x | None \<Rightarrow> b)"

text \<open>
  The body of the loop of \<^verbatim>\<open>parse_departures\<close> on one prediction: \<open>Inl\<close> where it raises,
  \<open>None\<close> where it appends nothing, otherwise the row with its \<^verbatim>\<open>_sort_time\<close>.
\<close>

definition departure_of :: "env \<Rightarrow> lookup \<Rightarrow> json \<Rightarrow> error + (int option \<times> departure_row) option" where
  "departure_of E included item =
     bindE (py_get item ''attributes'' (JObj [])) (\<lambda>attrs.
     bindE (py_get item ''relationships'' (JObj [])) (\<lambda>rels.
     bindE (py_get attrs ''direction_id'' JNull) (\<lambda>d.
     bindE (direction_id_of E d) (\<lambda>direction_id.
     bindE (py_get attrs ''departure_time'' JNull) (\<lambda>pred_dep.
     bindE (py_get attrs ''arrival_time'' JNull) (\<lambda>pred_arr.
     bindE (parse_iso E pred_dep) (\<lambda>pred_dep_dt.
     bindE (parse_iso E pred_arr) (\<lambda>pred_arr_dt.
     bindE (rel_id rels ''schedule'') (\<lambda>schedule_id.
     bindE (rel_id rels ''trip'') (\<lambda>trip_id.
     bindE (resolve included ''schedule'' schedule_id) (\<lambda>schedule.
     bindE (resolve included ''trip'' trip_id) (\<lambda>trip.
     bindE (py_get schedule ''attributes'' (JObj [])) (\<lambda>sched_attrs.
     bindE (py_get trip ''attributes'' (JObj [])) (\<lambda>trip_attrs.
     bindE (py_get trip_attrs ''headsign'' (JStr [])) (\<lambda>destination.
     bindE (py_get sched_attrs ''departure_time'' JNull) (\<lambda>sd1.
     bindE (py_get sched_attrs ''departure'' JNull) (\<lambda>sd2.
     bindE (parse_iso E (py_or sd1 sd2)) (\<lambda>sched_dep_dt.
     if py_eq_int direction_id 0 \<and> (truthy pred_dep \<or> truthy (py_or sd1 sd2) \<or> truthy pred_arr)
     then Inr (Some (dt_or (dt_or pred_dep_dt pred_arr_dt) sched_dep_dt,
            \<lparr>Destination = destination,
             Scheduled_Departure_Time = sched_dep_dt,
             Actual_Estimated_Departure_Time = dt_or pred_dep_dt pred_arr_dt,
             Departure_Status = derive_status sched_dep_dt (dt_or pred_dep_dt pred_arr_dt) 2\<rparr>))
     else Inr None))))))))))))))))))"

fun departures_loop :: "env \<Rightarrow> lookup \<Rightarrow> json list \<Rightarrow> error + (int option \<times> departure_row) list" where
  "departures_loop E included [] = Inr []"
| "departures_loop E included (item # rest) =
     bindE (departure_of E included item) (\<lambda>r.
     bindE (departures_loop E included rest) (\<lambda>rows.
     Inr (case r of None \<Rightarrow> rows | Some row \<Rightarrow> row # rows)))"

text \<open>
  \<^verbatim>\<open>df.sort_values(by="_sort_time", ascending=True, na_position="last")\<close> on rows paired
  with their \<^verbatim>\<open>_sort_time\<close>. The arguments \<^verbatim>\<open>ascending=True\<close> and \<^verbatim>\<open>na_position="last"\<close>
  are the order \<open>na_last_le\<close>: instants ascending, a missing time after every instant.
  The module passes no \<^verbatim>\<open>kind\<close>, so pandas sorts with its default, \<^verbatim>\<open>quicksort\<close>, which
  its documentation does not give as stable (only \<^verbatim>\<open>mergesort\<close> and \<^verbatim>\<open>stable\<close> are): the
  place of a row among the rows of equal \<^verbatim>\<open>_sort_time\<close> is the kernel's choice, the rank
  \<open>tie_rank E keys i\<close> of the environment. The frame is sorted by time, then by that
  rank; rows equal in both keep their order.
\<close>

definition na_last_le :: "int option \<Rightarrow> int option \<Rightarrow> bool" where
  "na_last_le a b =
     (case a of
        None \<Rightarrow> b = None
      | Some x \<Rightarrow> (case b of None \<Rightarrow> True | Some y \<Rightarrow> x \<le> y))"

definition key_le :: "int option \<times> nat \<Rightarrow> int option \<times> nat \<Rightarrow> bool" where
  "key_le a b = (if fst a = fst b then snd a \<le> snd b else na_last_le (fst a) (fst b))"

fun insert_by_key :: "(int option \<times> nat) \<times> 'a \<Rightarrow> ((int option \<times> nat) \<times> 'a) list \<Rightarrow> ((int option \<times> nat) \<times> 'a) list" where
  "insert_by_key x [] = [x]"
| "insert_by_key x (y # ys) =
     (if key_le (fst x) (fst y) then x # y # ys else y # insert_by_key x ys)"

definition with_keys :: "env \<Rightarrow> (int option \<times> 'a) list \<Rightarrow> ((int option \<times> nat) \<times> (int option \<times> 'a)) list" where
  "with_keys E rows =
     map (\<lambda>(i, row). ((fst row, tie_rank E (map fst rows) i), row)) (enumerate 0 rows)"

definition sort_values :: "env \<Rightarrow> (int option \<times> 'a) list \<Rightarrow> (int option \<times> 'a) list" where
  "sort_values E rows = map snd (foldr insert_by_key (with_keys E rows) [])"

text \<open>
  \<^verbatim>\<open>parse_departures\<close>: the error gate, the lookup, the loop, then
  \<^verbatim>\<open>sort_values(by="_sort_time", ascending=True, na_position="last")\<close> and the drop of the
  \<^verbatim>\<open>_sort_time\<close> column. The empty frame is the empty list.
\<close>

definition parse_departures :: "env \<Rightarrow> json \<Rightarrow> error + departure_row list" where
  "parse_departures E predictions_response =
     bindE (py_get predictions_response ''error'' JNull) (\<lambda>err.
     if truthy err then Inr []
     else
       bindE (py_get predictions_response ''included'' (JList [])) (\<lambda>inc.
       bindE (build_included_lookup inc) (\<lambda>included.
       bindE (py_get predictions_response ''data'' (JList [])) (\<lambda>data.
       bindE (py_iter data) (\<lambda>items.
       bindE (departures_loop E included items) (\<lambda>departures_rows.
       if departures_rows = [] then Inr []
       else Inr (map snd (sort_values E departures_rows))))))))"

record arrival_raw =
  vehicle_id :: json
  raw_Scheduled_Arrival_Time :: "int option"
  raw_Actual_Estimated_Arrival_Time :: "int option"
  raw_Status :: string
  arrival_time_dt :: "int option"

definition arrival_of :: "env \<Rightarrow> lookup \<Rightarrow> json \<Rightarrow> error + arrival_raw option" where
  "arrival_of E included item =
     bindE (py_get item ''attributes'' (JObj [])) (\<lambda>attrs.
     bindE (py_get item ''relationships'' (JObj [])) (\<lambda>rels.
     bindE (py_get attrs ''direction_id'' JNull) (\<lambda>d.
     bindE (direction_id_of E d) (\<lambda>direction_id.
     bindE (py_get attrs ''arrival_time'' JNull) (\<lambda>pred_arr.
     bindE (py_get attrs ''departure_time'' JNull) (\<lambda>pred_dep.
     bindE (parse_iso E pred_arr) (\<lambda>pred_arr_dt.
     bindE (parse_iso E pred_dep) (\<lambda>pred_dep_dt.
     bindE (rel_id rels ''schedule'') (\<lambda>schedule_id.
     bindE (rel_id rels ''trip'') (\<lambda>trip_id.
     bindE (rel_id rels ''vehicle'') (\<lambda>vid.
     bindE (resolve included ''schedule'' schedule_id) (\<lambda>schedule.
     bindE (py_get schedule ''attributes'' (JObj [])) (\<lambda>sched_attrs.
     bindE (py_get sched_attrs ''arrival_time'' JNull) (\<lambda>sa1.
     bindE (py_get sched_attrs ''arrival'' JNull) (\<lambda>sa2.
     bindE (parse_iso E (py_or sa1 sa2)) (\<lambda>sched_arr_dt.
     if py_eq_int direction_id 1 \<and> (truthy pred_arr \<or> truthy (py_or sa1 sa2) \<or> truthy pred_dep)
     then Inr (Some
            \<lparr>vehicle_id = vid,
             raw_Scheduled_Arrival_Time = sched_arr_dt,
             raw_Actual_Estimated_Arrival_Time = dt_or pred_arr_dt pred_dep_dt,
             raw_Status = derive_status sched_arr_dt (dt_or pred_arr_dt pred_dep_dt) 2,
             arrival_time_dt = dt_or (dt_or pred_arr_dt sched_arr_dt) pred_dep_dt\<rparr>)
     else Inr None))))))))))))))))"

fun arrivals_loop :: "env \<Rightarrow> lookup \<Rightarrow> json list \<Rightarrow> error + arrival_raw list" where
  "arrivals_loop E included [] = Inr []"
| "arrivals_loop E included (item # rest) =
     bindE (arrival_of E included item) (\<lambda>r.
     bindE (arrivals_loop E included rest) (\<lambda>rows.
     Inr (case r of None \<Rightarrow> rows | Some row \<Rightarrow> row # rows)))"

definition parse_arrivals_raw :: "env \<Rightarrow> json \<Rightarrow> error + arrival_raw list" where
  "parse_arrivals_raw E predictions_response =
     bindE (py_get predictions_response ''error'' JNull) (\<lambda>err.
     if truthy err then Inr []
     else
       bindE (py_get predictions_response ''included'' (JList [])) (\<lambda>inc.
       bindE (build_included_lookup inc) (\<lambda>included.
       bindE (py_get predictions_response ''data'' (JList [])) (\<lambda>data.
       bindE (py_iter data) (\<lambda>items.
       arrivals_loop E included items)))))"

section \<open>Record Flattener: arrival views\<close>

text \<open>
  The name of a stop, as \<^verbatim>\<open>_vehicle_to_stop_map\<close> and \<^verbatim>\<open>_next_stop_by_vehicle\<close> compute it:
  \<^verbatim>\<open>
  name = "Unknown"
  if stop_id:
      stop_res = included.get(("stop", stop_id))
      if stop_res:
          name = (stop_res.get("attributes") or {}).get("name", stop_id)
  \<close>
\<close>

definition stop_name_of :: "lookup \<Rightarrow> json \<Rightarrow> error + json" where
  "stop_name_of included stop_id =
     (if truthy stop_id then
        bindE (included_get included ''stop'' stop_id) (\<lambda>stop_res.
        if truthy stop_res then
          bindE (py_get stop_res ''attributes'' JNull) (\<lambda>a.
          py_get (py_or a (JObj [])) ''name'' stop_id)
        else Inr (JStr ''Unknown''))
      else Inr (JStr ''Unknown''))"

text \<open>
  \<^verbatim>\<open>_vehicle_to_stop_map\<close>; the reference to the stop is read with
  \<^verbatim>\<open>(item.get("relationships") or {}).get("stop", {}).get("data")\<close>.
\<close>

fun vehicle_to_stop_loop :: "lookup \<Rightarrow> json list \<Rightarrow> (pykey \<Rightarrow> json option) \<Rightarrow> error + (pykey \<Rightarrow> json option)" where
  "vehicle_to_stop_loop included [] out = Inr out"
| "vehicle_to_stop_loop included (item # rest) out =
     bindE (py_get item ''id'' JNull) (\<lambda>vid.
     bindE (py_get item ''relationships'' JNull) (\<lambda>rels.
     bindE (py_get (py_or rels (JObj [])) ''stop'' (JObj [])) (\<lambda>stop.
     bindE (py_get stop ''data'' JNull) (\<lambda>stop_ref.
     bindE (if is_dict stop_ref then py_get stop_ref ''id'' JNull else Inr JNull) (\<lambda>stop_id.
     bindE (stop_name_of included stop_id) (\<lambda>current_stop_name.
     bindE (py_key vid) (\<lambda>k.
     vehicle_to_stop_loop included rest (out(k \<mapsto> current_stop_name)))))))))"

definition vehicle_to_stop_map :: "json \<Rightarrow> error + (pykey \<Rightarrow> json option)" where
  "vehicle_to_stop_map vehicles_response =
     bindE (py_get vehicles_response ''error'' JNull) (\<lambda>err.
     if truthy err then Inr Map.empty
     else
       bindE (py_get vehicles_response ''included'' (JList [])) (\<lambda>inc.
       bindE (build_included_lookup inc) (\<lambda>included.
       bindE (py_get vehicles_response ''data'' (JList [])) (\<lambda>data.
       bindE (py_iter data) (\<lambda>items.
       vehicle_to_stop_loop included items Map.empty)))))"

record arrival_row =
  Current_Stop :: json
  Scheduled_Arrival_Time :: "int option"
  Actual_Estimated_Arrival_Time :: "int option"
  Arrival_Status :: string

text \<open>
  \<^verbatim>\<open>raw["vehicle_id"].map(lambda v: vehicle_to_stop.get(v, "Unknown") if pd.notna(v) else "Unknown")\<close>
  on one cell. An id that is a list or a dict is outside what the model follows into
  pandas: it raises here.
\<close>

definition current_stop :: "(pykey \<Rightarrow> json option) \<Rightarrow> json \<Rightarrow> error + json" where
  "current_stop vehicle_to_stop v =
     (if v = JNull then Inr (JStr ''Unknown'')
      else bindE (py_key v) (\<lambda>k.
           Inr (case vehicle_to_stop k of Some name \<Rightarrow> name | None \<Rightarrow> JStr ''Unknown'')))"

fun with_current_stop :: "(pykey \<Rightarrow> json option) \<Rightarrow> arrival_raw list \<Rightarrow> error + (json \<times> arrival_raw) list" where
  "with_current_stop vehicle_to_stop [] = Inr []"
| "with_current_stop vehicle_to_stop (r # rest) =
     bindE (current_stop vehicle_to_stop (vehicle_id r)) (\<lambda>stop.
     bindE (with_current_stop vehicle_to_stop rest) (\<lambda>rows. Inr ((stop, r) # rows)))"

text \<open>The four columns that \<^verbatim>\<open>raw.loc[mask, [...]]\<close> keeps.\<close>

definition arrival_columns :: "json \<times> arrival_raw \<Rightarrow> arrival_row" where
  "arrival_columns p =
     \<lparr>Current_Stop = fst p,
      Scheduled_Arrival_Time = raw_Scheduled_Arrival_Time (snd p),
      Actual_Estimated_Arrival_Time = raw_Actual_Estimated_Arrival_Time (snd p),
      Arrival_Status = raw_Status (snd p)\<rparr>"

text \<open>
  One cell of the mask \<^verbatim>\<open>(arrival_dt >= now) & (arrival_dt <= now + timedelta(minutes=m))\<close>;
  a missing time is NaT, which compares false. A minute is 60000000 microseconds.
\<close>

definition in_window :: "int \<Rightarrow> int \<Rightarrow> int option \<Rightarrow> bool" where
  "in_window t0 minutes t =
     (case t of None \<Rightarrow> False | Some a \<Rightarrow> t0 \<le> a \<and> a \<le> t0 + minutes * 60000000)"

text \<open>
  \<^verbatim>\<open>
  def parse_near_term_arrivals(predictions_response, vehicles_response):
      raw = _parse_arrivals_raw(predictions_response)
      if raw.empty: return _empty_arrivals_df()
      vehicle_to_stop = _vehicle_to_stop_map(vehicles_response)
      raw["Current Stop"] = raw["vehicle_id"].map(...)
      now = datetime.now(timezone.utc)
      ten_min = now + timedelta(minutes=10)
      arrival_dt = pd.to_datetime(raw["arrival_time_dt"], utc=True)
      mask = (arrival_dt >= now) & (arrival_dt <= ten_min)
      out = raw.loc[mask, [...]].copy()
      return out if not out.empty else _empty_arrivals_df()
  \<close>
  and \<^verbatim>\<open>parse_future_arrivals\<close>, the same text with 60 minutes. Each call reads the
  clock once; the properties below compare the two views at one reading \<open>now E\<close>. The
  range of pandas' nanosecond timestamps is not modelled.
\<close>

definition parse_near_term_arrivals :: "env \<Rightarrow> json \<Rightarrow> json \<Rightarrow> error + arrival_row list" where
  "parse_near_term_arrivals E predictions_response vehicles_response =
     bindE (parse_arrivals_raw E predictions_response) (\<lambda>raw.
     if raw = [] then Inr []
     else
       bindE (vehicle_to_stop_map vehicles_response) (\<lambda>vehicle_to_stop.
       bindE (with_current_stop vehicle_to_stop raw) (\<lambda>rows.
       Inr (map arrival_columns
              (filter (\<lambda>p. in_window (now E) 10 (arrival_time_dt (snd p))) rows)))))"

definition parse_future_arrivals :: "env \<Rightarrow> json \<Rightarrow> json \<Rightarrow> error + arrival_row list" where
  "parse_future_arrivals E predictions_response vehicles_response =
     bindE (parse_arrivals_raw E predictions_response) (\<lambda>raw.
     if raw = [] then Inr []
     else
       bindE (vehicle_to_stop_map vehicles_response) (\<lambda>vehicle_to_stop.
       bindE (with_current_stop vehicle_to_stop raw) (\<lambda>rows.
       Inr (map arrival_columns
              (filter (\<lambda>p. in_window (now E) 60 (arrival_time_dt (snd p))) rows)))))"

section \<open>Record Flattener: alerts\<close>

record alert_row =
  Severity :: string
  Description :: json
  Start_Time :: "int option"
  End_Time :: "int option"
  Alert_Status :: string

text \<open>
  \<^verbatim>\<open>SEVERITY_MAP.get(severity_val, str(severity_val) if severity_val is not None else "Unknown")\<close>
  with \<^verbatim>\<open>SEVERITY_MAP = {1: "Information", 2: "Warning", 3: "Emergency"}\<close>.
\<close>

definition severity_label :: "env \<Rightarrow> json \<Rightarrow> error + string" where
  "severity_label E severity_val =
     bindE (py_key severity_val) (\<lambda>k.
     Inr (if k = KNum 1 then ''Information''
          else if k = KNum 2 then ''Warning''
          else if k = KNum 3 then ''Emergency''
          else if severity_val = JNull then ''Unknown''
          else py_str E severity_val))"

text \<open>
  \<^verbatim>\<open>description[:200] if description else ""\<close>: strings and lists can be sliced, a
  string by characters; a dict raises (TypeError, KeyError from Python 3.12), a number
  is not subscriptable.
\<close>

definition description_200 :: "json \<Rightarrow> error + json" where
  "description_200 description =
     (if \<not> truthy description then Inr (JStr [])
      else case description of
        JStr s \<Rightarrow> Inr (JStr (concat (take 200 (code_points s))))
      | JList xs \<Rightarrow> Inr (JList (take 200 xs))
      | _ \<Rightarrow> Inl TypeError)"

text \<open>\<^verbatim>\<open>active_periods[0]\<close> on a truthy value.\<close>

fun py_first :: "json \<Rightarrow> error + json" where
  "py_first (JList (x # xs)) = Inr x"
| "py_first (JList []) = Inl IndexError"
| "py_first (JStr (c # cs)) = Inr (JStr (c # takeWhile is_continuation cs))"
| "py_first (JStr []) = Inl IndexError"
| "py_first (JObj kvs) = Inl KeyError"
| "py_first v = Inl TypeError"

text \<open>
  \<^verbatim>\<open>start_time and (end_time is None or now < end_time) and now >= start_time\<close>
\<close>

definition period_active :: "int \<Rightarrow> int option \<Rightarrow> int option \<Rightarrow> bool" where
  "period_active t0 start_time end_time =
     (case start_time of
        None \<Rightarrow> False
      | Some st \<Rightarrow> (case end_time of None \<Rightarrow> True | Some en \<Rightarrow> t0 < en) \<and> st \<le> t0)"

text \<open>The start, the end and the status that the body of the loop computes from \<^verbatim>\<open>active_period\<close>.\<close>

definition alert_period :: "env \<Rightarrow> json \<Rightarrow> error + (int option \<times> int option \<times> string)" where
  "alert_period E active_periods =
     (if truthy active_periods then
        bindE (py_first active_periods) (\<lambda>first.
        bindE (py_get first ''start'' JNull) (\<lambda>start_str.
        bindE (py_get first ''end'' JNull) (\<lambda>end_str.
        bindE (if truthy start_str then parse_iso E start_str else Inr None) (\<lambda>start_time.
        bindE (if truthy end_str then parse_iso E end_str else Inr None) (\<lambda>end_time.
        Inr (start_time, end_time,
             if period_active (now E) start_time end_time then ''Active'' else ''Inactive''))))))
      else Inr (None, None, ''Inactive''))"

definition alert_of :: "env \<Rightarrow> json \<Rightarrow> error + alert_row" where
  "alert_of E item =
     bindE (py_get item ''attributes'' (JObj [])) (\<lambda>attrs.
     bindE (py_get attrs ''severity'' JNull) (\<lambda>severity_val.
     bindE (severity_label E severity_val) (\<lambda>label.
     bindE (py_get attrs ''description'' JNull) (\<lambda>d1.
     bindE (py_get attrs ''short_header'' JNull) (\<lambda>d2.
     bindE (py_get attrs ''header'' JNull) (\<lambda>d3.
     bindE (py_get attrs ''active_period'' JNull) (\<lambda>ap.
     bindE (alert_period E (py_or ap (JList []))) (\<lambda>per.
     bindE (description_200 (py_or d1 (py_or d2 (py_or d3 (JStr []))))) (\<lambda>description.
     Inr \<lparr>Severity = label,
          Description = description,
          Start_Time = fst per,
          End_Time = fst (snd per),
          Alert_Status = snd (snd per)\<rparr>)))))))))"

fun alerts_loop :: "env \<Rightarrow> json list \<Rightarrow> error + alert_row list" where
  "alerts_loop E [] = Inr []"
| "alerts_loop E (item # rest) =
     bindE (alert_of E item) (\<lambda>row.
     bindE (alerts_loop E rest) (\<lambda>rows. Inr (row # rows)))"

definition parse_alerts :: "env \<Rightarrow> json \<Rightarrow> error + alert_row list" where
  "parse_alerts E alerts_response =
     bindE (py_get alerts_response ''error'' JNull) (\<lambda>err.
     if truthy err then Inr []
     else
       bindE (py_get alerts_response ''data'' (JList [])) (\<lambda>data.
       bindE (py_iter data) (\<lambda>items.
       alerts_loop E items)))"

section \<open>Record Flattener: vehicle positions\<close>

text \<open>
  \<^verbatim>\<open>float(i)\<close> of an int is the nearest double, ties to even: an int of more than 53
  bits keeps its 53 leading bits, rounded. It raises OverflowError where that double
  would be \<open>2^1024\<close>.
\<close>

function bit_length :: "int \<Rightarrow> nat" where
  "bit_length n = (if n \<le> 0 then 0 else Suc (bit_length (n div 2)))"
  by pat_completeness auto

termination bit_length
  by (relation "measure nat") auto

declare bit_length.simps [simp del]

definition double_of_int :: "int \<Rightarrow> int" where
  "double_of_int i =
     (let a = \<bar>i\<bar>; e = bit_length a - 53; q = a div 2 ^ e; r = a mod 2 ^ e
      in if e = 0 then i
         else sgn i * ((if 2 * r > 2 ^ e \<or> (2 * r = 2 ^ e \<and> odd q) then q + 1 else q) * 2 ^ e))"

text \<open>
  \<^verbatim>\<open>float(v)\<close>: a string is parsed, a number converted, anything else is a TypeError.
\<close>

definition py_float :: "env \<Rightarrow> json \<Rightarrow> error + real" where
  "py_float E v =
     (case v of
        JInt i \<Rightarrow>
          if \<bar>i\<bar> < 2 ^ 1024 - 2 ^ 970 then Inr (of_int (double_of_int i)) else Inl OverflowError
      | JFloat r \<Rightarrow> Inr r
      | JBool b \<Rightarrow> Inr (if b then 1 else 0)
      | JStr s \<Rightarrow> (case float_of_str E s of Some r \<Rightarrow> Inr r | None \<Rightarrow> Inl ValueError)
      | _ \<Rightarrow> Inl TypeError)"

text \<open>\<^verbatim>\<open>try: float(v)  except (TypeError, ValueError): ...\<close>; \<open>None\<close> is the handler.\<close>

definition try_float :: "env \<Rightarrow> json \<Rightarrow> error + real option" where
  "try_float E v =
     (case py_float E v of
        Inr r \<Rightarrow> Inr (Some r)
      | Inl e \<Rightarrow> if e = TypeError \<or> e = ValueError then Inr None else Inl e)"

text \<open>
  \<^verbatim>\<open>
  lat = attrs.get("latitude")
  if lat is None and "position" in attrs:
      pos = attrs["position"]
      if isinstance(pos, dict): lat = pos.get("latitude")
  \<close>
\<close>

definition coordinate :: "json \<Rightarrow> string \<Rightarrow> error + json" where
  "coordinate attrs name =
     bindE (py_get attrs name JNull) (\<lambda>v.
     if v = JNull then
       (case attrs of
          JObj kvs \<Rightarrow>
            (case map_of kvs ''position'' of
               Some pos \<Rightarrow> if is_dict pos then py_get pos name JNull else Inr v
             | None \<Rightarrow> Inr v)
        | _ \<Rightarrow> Inr v)
     else Inr v)"

record vehicle_position =
  lat :: real
  lon :: real
  bearing :: "real option"
  position_vehicle_id :: json

definition vehicle_of :: "env \<Rightarrow> json \<Rightarrow> error + vehicle_position option" where
  "vehicle_of E item =
     bindE (py_get item ''attributes'' JNull) (\<lambda>a.
     bindE (coordinate (py_or a (JObj [])) ''latitude'') (\<lambda>la.
     bindE (coordinate (py_or a (JObj [])) ''longitude'') (\<lambda>lo.
     if la = JNull \<or> lo = JNull then Inr None
     else
       bindE (try_float E la) (\<lambda>lat_f.
       case lat_f of
         None \<Rightarrow> Inr None
       | Some x \<Rightarrow>
           bindE (try_float E lo) (\<lambda>lon_f.
           case lon_f of
             None \<Rightarrow> Inr None
           | Some y \<Rightarrow>
               bindE (py_get (py_or a (JObj [])) ''bearing'' JNull) (\<lambda>b.
               bindE (if b = JNull then Inr None else try_float E b) (\<lambda>bearing_f.
               bindE (py_get item ''id'' (JStr [])) (\<lambda>vid.
               Inr (Some \<lparr>lat = x, lon = y, bearing = bearing_f,
                          position_vehicle_id = vid\<rparr>))))))))) "

fun vehicles_loop :: "env \<Rightarrow> json list \<Rightarrow> error + vehicle_position list" where
  "vehicles_loop E [] = Inr []"
| "vehicles_loop E (item # rest) =
     bindE (vehicle_of E item) (\<lambda>r.
     bindE (vehicles_loop E rest) (\<lambda>rows.
     Inr (case r of None \<Rightarrow> rows | Some row \<Rightarrow> row # rows)))"

definition parse_vehicles_for_map :: "env \<Rightarrow> json \<Rightarrow> error + vehicle_position list" where
  "parse_vehicles_for_map E vehicles_response =
     bindE (py_get vehicles_response ''error'' JNull) (\<lambda>err.
     if truthy err then Inr []
     else
       bindE (py_get vehicles_response ''data'' (JList [])) (\<lambda>data.
       bindE (py_iter data) (\<lambda>items.
       vehicles_loop E items)))"

section \<open>Record Flattener: shapes\<close>

text \<open>A decoded segment is the pair (lons, lats).\<close>

type_synonym segment = "real list \<times> real list"

text \<open>
  One point of the explicit list:
  \<^verbatim>\<open>
  if isinstance(pt, dict):
      la = pt.get("latitude") or pt.get("lat")
      lo = pt.get("longitude") or pt.get("lon") or pt.get("lng")
      if la is not None and lo is not None:
          lats.append(float(la)); lons.append(float(lo))
  \<close>
  The two calls of \<^verbatim>\<open>float\<close> stand in no \<^verbatim>\<open>try\<close>.
\<close>

definition point_of :: "env \<Rightarrow> json \<Rightarrow> error + (real \<times> real) option" where
  "point_of E pt =
     (if is_dict pt then
        bindE (py_get pt ''latitude'' JNull) (\<lambda>l1.
        bindE (py_get pt ''lat'' JNull) (\<lambda>l2.
        bindE (py_get pt ''longitude'' JNull) (\<lambda>o1.
        bindE (py_get pt ''lon'' JNull) (\<lambda>o2.
        bindE (py_get pt ''lng'' JNull) (\<lambda>o3.
        if py_or l1 l2 \<noteq> JNull \<and> py_or o1 (py_or o2 o3) \<noteq> JNull then
          bindE (py_float E (py_or l1 l2)) (\<lambda>x.
          bindE (py_float E (py_or o1 (py_or o2 o3))) (\<lambda>y.
          Inr (Some (x, y))))
        else Inr None)))))
      else Inr None)"

fun points_loop :: "env \<Rightarrow> json list \<Rightarrow> error + (real \<times> real) list" where
  "points_loop E [] = Inr []"
| "points_loop E (pt # rest) =
     bindE (point_of E pt) (\<lambda>r.
     bindE (points_loop E rest) (\<lambda>cs.
     Inr (case r of None \<Rightarrow> cs | Some c \<Rightarrow> c # cs)))"

text \<open>The segment of a list of (lat, lon) pairs, \<open>None\<close> when the list is empty.\<close>

definition segment_of :: "(real \<times> real) list \<Rightarrow> segment option" where
  "segment_of coords = (if coords = [] then None else Some (map snd coords, map fst coords))"

definition decode_points :: "env \<Rightarrow> json \<Rightarrow> error + segment option" where
  "decode_points E attrs =
     bindE (py_get attrs ''points'' JNull) (\<lambda>p.
     if \<not> truthy (py_or p (JList [])) then Inr None
     else
       bindE (py_iter (py_or p (JList []))) (\<lambda>pts.
       bindE (points_loop E pts) (\<lambda>cs.
       Inr (segment_of cs))))"

text \<open>
  \<^verbatim>\<open>
  def _decode_shape_to_lons_lats(item):
      """Decode one shape resource to (lons, lats). Returns None if decode fails."""
      attrs = item.get("attributes") or {}
      encoded = attrs.get("polyline")
      if isinstance(encoded, str) and encoded and pl is not None:
          try:
              coords = pl.decode(encoded, precision=5)
              if coords: return (lons, lats)
          except Exception: pass
          return None
      points = attrs.get("points") or []
      ...
  \<close>
\<close>

definition decode_shape_to_lons_lats :: "env \<Rightarrow> json \<Rightarrow> error + segment option" where
  "decode_shape_to_lons_lats E item =
     bindE (py_get item ''attributes'' JNull) (\<lambda>a.
     bindE (py_get (py_or a (JObj [])) ''polyline'' JNull) (\<lambda>encoded.
     case encoded of
       JStr s \<Rightarrow>
         (case pl E of
            Some decode \<Rightarrow>
              if s \<noteq> [] then
                Inr (case decode s of Some coords \<Rightarrow> segment_of coords | None \<Rightarrow> None)
              else decode_points E (py_or a (JObj []))
          | None \<Rightarrow> decode_points E (py_or a (JObj [])))
     | _ \<Rightarrow> decode_points E (py_or a (JObj []))))"

fun shapes_loop :: "env \<Rightarrow> json list \<Rightarrow> error + segment list" where
  "shapes_loop E [] = Inr []"
| "shapes_loop E (item # rest) =
     bindE (decode_shape_to_lons_lats E item) (\<lambda>decoded.
     bindE (shapes_loop E rest) (\<lambda>out.
     Inr (case decoded of None \<Rightarrow> out | Some seg \<Rightarrow> seg # out)))"

definition parse_red_line_shape :: "env \<Rightarrow> json \<Rightarrow> error + segment list" where
  "parse_red_line_shape E shapes_response =
     bindE (py_get shapes_response ''error'' JNull) (\<lambda>err.
     if truthy err then Inr []
     else
       bindE (py_get shapes_response ''data'' (JList [])) (\<lambda>data.
       bindE (py_iter data) (\<lambda>items.
       shapes_loop E items)))"

text \<open>
  \<^verbatim>\<open>max(shapes, key=lambda s: len(s[0]))\<close>: the first segment whose longitude list is
  the longest; \<open>best\<close> is replaced only by a strictly longer one.
\<close>

fun longest_from :: "segment \<Rightarrow> segment list \<Rightarrow> segment" where
  "longest_from best [] = best"
| "longest_from best (s # rest) =
     longest_from (if length (fst best) < length (fst s) then s else best) rest"

definition parse_route_shapes_merged :: "env \<Rightarrow> json \<Rightarrow> error + segment option" where
  "parse_route_shapes_merged E shapes_response =
     bindE (parse_red_line_shape E shapes_response) (\<lambda>shapes.
     case shapes of
       [] \<Rightarrow> Inr None
     | s # rest \<Rightarrow> Inr (Some (longest_from s rest)))"

text \<open>
  \<^verbatim>\<open>parse_merged_shapes_by_route\<close> on the items of \<^verbatim>\<open>responses_by_route\<close>, in their order.
\<close>

fun parse_merged_shapes_by_route :: "env \<Rightarrow> (string \<times> json) list \<Rightarrow> error + (string \<times> segment) list" where
  "parse_merged_shapes_by_route E [] = Inr []"
| "parse_merged_shapes_by_route E ((route_id, resp) # rest) =
     bindE (py_get resp ''error'' JNull) (\<lambda>err.
     bindE (if truthy err then Inr None else parse_route_shapes_merged E resp) (\<lambda>merged.
     bindE (parse_merged_shapes_by_route E rest) (\<lambda>out.
     Inr (case merged of None \<Rightarrow> out | Some seg \<Rightarrow> (route_id, seg) # out))))"

section \<open>Vehicle--Next-Stop Merger: \<^verbatim>\<open>_next_stop_by_vehicle\<close>\<close>

record next_stop =
  stop_name :: json
  expected_time :: int
  minutes_behind :: "real option"

text \<open>
  \<^verbatim>\<open>
  schedule_id = (rels.get("schedule") or {}).get("data")
  schedule_id = schedule_id.get("id") if isinstance(schedule_id, dict) else None
  schedule = included.get(("schedule", schedule_id)) if schedule_id else {}
  sched_attrs = schedule.get("attributes", {})
  sched_dt = _parse_iso(sched_attrs.get("arrival_time") or sched_attrs.get("arrival")
                        or sched_attrs.get("departure_time") or sched_attrs.get("departure"))
  minutes_behind = None
  if sched_dt is not None and pred_dt is not None:
      minutes_behind = (pred_dt - sched_dt).total_seconds() / 60.0
  \<close>
  for the predicted time \<open>t\<close>.
\<close>

definition minutes_behind_of :: "env \<Rightarrow> lookup \<Rightarrow> json \<Rightarrow> int \<Rightarrow> error + real option" where
  "minutes_behind_of E included rels t =
     bindE (rel_id rels ''schedule'') (\<lambda>schedule_id.
     bindE (resolve included ''schedule'' schedule_id) (\<lambda>schedule.
     bindE (py_get schedule ''attributes'' (JObj [])) (\<lambda>sched_attrs.
     bindE (py_get sched_attrs ''arrival_time'' JNull) (\<lambda>s1.
     bindE (py_get sched_attrs ''arrival'' JNull) (\<lambda>s2.
     bindE (py_get sched_attrs ''departure_time'' JNull) (\<lambda>s3.
     bindE (py_get sched_attrs ''departure'' JNull) (\<lambda>s4.
     bindE (parse_iso E (py_or s1 (py_or s2 (py_or s3 s4)))) (\<lambda>sched_dt.
     Inr (case sched_dt of
            None \<Rightarrow> None
          | Some sd \<Rightarrow> Some (real_of_int (t - sd) / 60000000))))))))))"

text \<open>
  The body of the loop on one prediction, up to the entry it builds: \<open>None\<close> where the
  body runs into \<^verbatim>\<open>continue\<close> (no vehicle id; no predicted time, or one before
  \<^verbatim>\<open>now\<close>), otherwise the vehicle id and the entry.
\<close>

definition next_stop_of :: "env \<Rightarrow> lookup \<Rightarrow> json \<Rightarrow> error + (json \<times> next_stop) option" where
  "next_stop_of E included item =
     bindE (py_get item ''attributes'' (JObj [])) (\<lambda>attrs.
     bindE (py_get item ''relationships'' (JObj [])) (\<lambda>rels.
     bindE (rel_id rels ''vehicle'') (\<lambda>vid.
     if \<not> truthy vid then Inr None
     else
       bindE (rel_id rels ''stop'') (\<lambda>stop_id.
       bindE (stop_name_of included stop_id) (\<lambda>name.
       bindE (py_get attrs ''arrival_time'' JNull) (\<lambda>pred_arr.
       bindE (py_get attrs ''departure_time'' JNull) (\<lambda>pred_dep.
       bindE (parse_iso E (py_or pred_arr pred_dep)) (\<lambda>pred_dt.
       case pred_dt of
         None \<Rightarrow> Inr None
       | Some t \<Rightarrow>
           if t < now E then Inr None
           else
             bindE (minutes_behind_of E included rels t) (\<lambda>behind.
             Inr (Some (vid,
               \<lparr>stop_name = name, expected_time = t, minutes_behind = behind\<rparr>)))))))))))"

text \<open>
  \<^verbatim>\<open>
  if vehicle_id not in by_vehicle or (by_vehicle[vehicle_id]["expected_time"] > pred_dt):
      by_vehicle[vehicle_id] = entry
  \<close>
\<close>

definition keep_earliest :: "(pykey \<Rightarrow> next_stop option) \<Rightarrow> pykey \<Rightarrow> next_stop \<Rightarrow> (pykey \<Rightarrow> next_stop option)" where
  "keep_earliest by_vehicle k entry =
     (case by_vehicle k of
        None \<Rightarrow> by_vehicle(k \<mapsto> entry)
      | Some old \<Rightarrow>
          if expected_time entry < expected_time old then by_vehicle(k \<mapsto> entry)
          else by_vehicle)"

fun next_stop_loop :: "env \<Rightarrow> lookup \<Rightarrow> json list \<Rightarrow> (pykey \<Rightarrow> next_stop option) \<Rightarrow> error + (pykey \<Rightarrow> next_stop option)" where
  "next_stop_loop E included [] by_vehicle = Inr by_vehicle"
| "next_stop_loop E included (item # rest) by_vehicle =
     bindE (next_stop_of E included item) (\<lambda>r.
     case r of
       None \<Rightarrow> next_stop_loop E included rest by_vehicle
     | Some (vid, entry) \<Rightarrow>
         bindE (py_key vid) (\<lambda>k.
         next_stop_loop E included rest (keep_earliest by_vehicle k entry)))"

definition next_stop_by_vehicle :: "env \<Rightarrow> json \<Rightarrow> error + (pykey \<Rightarrow> next_stop option)" where
  "next_stop_by_vehicle E predictions_response =
     bindE (py_get predictions_response ''error'' JNull) (\<lambda>err.
     if truthy err then Inr Map.empty
     else
       bindE (py_get predictions_response ''included'' (JList [])) (\<lambda>inc.
       bindE (build_included_lookup inc) (\<lambda>included.
       bindE (py_get predictions_response ''data'' (JList [])) (\<lambda>data.
       bindE (py_iter data) (\<lambda>items.
       next_stop_loop E included items Map.empty)))))"

section \<open>Record Flattener: enriched vehicle positions\<close>

text \<open>The placeholder of the module, an em dash, as its bytes in UTF-8.\<close>

definition em_dash :: string where
  "em_dash = [CHR 0xE2, CHR 0x80, CHR 0x94]"

record enriched_vehicle = vehicle_position +
  destination :: json
  direction :: string
  next_stop_name :: json
  next_stop_time_expected :: string
  rounded_minutes_behind :: "real option"

text \<open>
  \<^verbatim>\<open>next((x for x in items if x.get("id") == vid), None)\<close>
\<close>

fun find_by_id :: "env \<Rightarrow> json list \<Rightarrow> json \<Rightarrow> error + json" where
  "find_by_id E [] vid = Inr JNull"
| "find_by_id E (x # xs) vid =
     bindE (py_get x ''id'' JNull) (\<lambda>ident.
     if py_eq E ident vid then Inr x else find_by_id E xs vid)"

text \<open>
  The destination and the direction of the vehicle resource \<open>item\<close>:
  \<^verbatim>\<open>
  destination = "-"; direction = "-"           # em dashes
  if item:
      trip_ref = (item.get("relationships") or {}).get("trip", {}).get("data")
      trip_id = trip_ref.get("id") if isinstance(trip_ref, dict) else None
      if trip_id:
          trip = included.get(("trip", trip_id))
          if trip:
              attrs = (trip.get("attributes") or {})
              destination = attrs.get("headsign", "-") or "-"
              did = attrs.get("direction_id")
              if did is not None:
                  direction = "Southbound" if did == 0 else "Northbound"
  \<close>
\<close>

definition trip_labels :: "lookup \<Rightarrow> json \<Rightarrow> error + json \<times> string" where
  "trip_labels included item =
     (if truthy item then
        bindE (py_get item ''relationships'' JNull) (\<lambda>rels.
        bindE (py_get (py_or rels (JObj [])) ''trip'' (JObj [])) (\<lambda>trip_rel.
        bindE (py_get trip_rel ''data'' JNull) (\<lambda>trip_ref.
        bindE (if is_dict trip_ref then py_get trip_ref ''id'' JNull else Inr JNull) (\<lambda>trip_id.
        if truthy trip_id then
          bindE (included_get included ''trip'' trip_id) (\<lambda>trip.
          if truthy trip then
            bindE (py_get trip ''attributes'' JNull) (\<lambda>a.
            bindE (py_get (py_or a (JObj [])) ''headsign'' (JStr em_dash)) (\<lambda>headsign.
            bindE (py_get (py_or a (JObj [])) ''direction_id'' JNull) (\<lambda>did.
            Inr (py_or headsign (JStr em_dash),
                 if did = JNull then em_dash
                 else if py_eq_int did 0 then ''Southbound'' else ''Northbound''))))
          else Inr (JStr em_dash, em_dash))
        else Inr (JStr em_dash, em_dash)))))
      else Inr (JStr em_dash, em_dash))"

text \<open>
  The body of the loop of \<^verbatim>\<open>parse_vehicles_for_map_enriched\<close> on one position \<open>v\<close>:
  the vehicle resource with the id of \<open>v\<close>, its labels, and the entry of the merger
  (\<^verbatim>\<open>ns = next_stop.get(vid, {})\<close>), whose stop name, expected time as \<^verbatim>\<open>%H:%M\<close> and
  minutes behind, rounded to one decimal, are added to the fields of \<open>v\<close>.
\<close>

definition enrich :: "env \<Rightarrow> json \<Rightarrow> lookup \<Rightarrow> (pykey \<Rightarrow> next_stop option) \<Rightarrow> vehicle_position \<Rightarrow> error + enriched_vehicle" where
  "enrich E vehicles_response included next_stop v =
     bindE (py_get vehicles_response ''data'' JNull) (\<lambda>data.
     bindE (py_iter (py_or data (JList []))) (\<lambda>items.
     bindE (find_by_id E items (position_vehicle_id v)) (\<lambda>item.
     bindE (trip_labels included item) (\<lambda>labels.
     bindE (py_key (position_vehicle_id v)) (\<lambda>k.
     Inr (vehicle_position.extend v
       (case next_stop k of
          None \<Rightarrow>
            \<lparr>destination = fst labels, direction = snd labels,
             next_stop_name = JStr em_dash,
             next_stop_time_expected = em_dash,
             rounded_minutes_behind = None\<rparr>
        | Some ns \<Rightarrow>
            \<lparr>destination = fst labels, direction = snd labels,
             next_stop_name = py_or (stop_name ns) (JStr em_dash),
             next_stop_time_expected = strftime_HM E (ZoneInfo E \<noteq> None) (expected_time ns),
             rounded_minutes_behind = map_option (round1 E) (minutes_behind ns)\<rparr>)))))))"

fun enrich_loop :: "env \<Rightarrow> json \<Rightarrow> lookup \<Rightarrow> (pykey \<Rightarrow> next_stop option) \<Rightarrow> vehicle_position list \<Rightarrow> error + enriched_vehicle list" where
  "enrich_loop E vehicles_response included next_stop [] = Inr []"
| "enrich_loop E vehicles_response included next_stop (v # rest) =
     bindE (enrich E vehicles_response included next_stop v) (\<lambda>row.
     bindE (enrich_loop E vehicles_response included next_stop rest) (\<lambda>out.
     Inr (row # out)))"

text \<open>
  \<^verbatim>\<open>
  base_list = parse_vehicles_for_map(vehicles_response)
  if not base_list: return []
  next_stop = _next_stop_by_vehicle(predictions_all_stops_response or {})
  included = _build_included_lookup(
      vehicles_response.get("included", []) if not vehicles_response.get("error") else [])
  \<close>
  and the loop over \<^verbatim>\<open>base_list\<close>.
\<close>

definition parse_vehicles_for_map_enriched :: "env \<Rightarrow> json \<Rightarrow> json \<Rightarrow> error + enriched_vehicle list" where
  "parse_vehicles_for_map_enriched E vehicles_response predictions_all_stops_response =
     bindE (parse_vehicles_for_map E vehicles_response) (\<lambda>base_list.
     if base_list = [] then Inr []
     else
       bindE (next_stop_by_vehicle E (py_or predictions_all_stops_response (JObj []))) (\<lambda>next_stop.
       bindE (py_get vehicles_response ''error'' JNull) (\<lambda>err.
       bindE (if truthy err then Inr (JList [])
              else py_get vehicles_response ''included'' (JList [])) (\<lambda>inc.
       bindE (build_included_lookup inc) (\<lambda>included.
       enrich_loop E vehicles_response included next_stop base_list)))))"

section \<open>The best-available departure instant\<close>


section \<open>An environment for the examples\<close>

text \<open>
  \<^verbatim>\<open>str.isdigit\<close> and \<^verbatim>\<open>int\<close> on ASCII text, the text of the examples: a non-empty
  string of the digits 0 to 9, and its value unless it has more than 4300 digits,
  CPython's limit.
\<close>

definition ascii_isdigit :: "string \<Rightarrow> bool" where
  "ascii_isdigit s = (s \<noteq> [] \<and> list_all (\<lambda>c. c \<in> set ''0123456789'') s)"

definition int_of_digits :: "string \<Rightarrow> int" where
  "int_of_digits s = fold (\<lambda>c n. 10 * n + (of_char c - 48)) s 0"

definition ascii_int :: "string \<Rightarrow> int option" where
  "ascii_int s =
     (if ascii_isdigit s \<and> length s \<le> 4300 then Some (int_of_digits s) else None)"

text \<open>
  A kernel that leaves the rows of equal key in their order on frames of at most 16
  rows and reverses them on longer frames.
\<close>

definition example_tie_rank :: "int option list \<Rightarrow> nat \<Rightarrow> nat" where
  "example_tie_rank keys i = (if length keys \<le> 16 then 0 else length keys - i)"

text \<open>
  Python's proleptic Gregorian calendar (\<^verbatim>\<open>_days_before_year\<close>, \<^verbatim>\<open>_days_before_month\<close>,
  \<^verbatim>\<open>_ymd2ord\<close> of \<^verbatim>\<open>datetime.py\<close>) and the wall-clock reading in microseconds.
\<close>

definition is_leap :: "int \<Rightarrow> bool" where
  "is_leap y = (y mod 4 = 0 \<and> (y mod 100 \<noteq> 0 \<or> y mod 400 = 0))"

definition days_before_year :: "int \<Rightarrow> int" where
  "days_before_year y = (y - 1) * 365 + (y - 1) div 4 - (y - 1) div 100 + (y - 1) div 400"

definition days_in_month :: "int \<Rightarrow> int \<Rightarrow> int" where
  "days_in_month y m =
     (if m = 2 then (if is_leap y then 29 else 28)
      else if m = 4 \<or> m = 6 \<or> m = 9 \<or> m = 11 then 30 else 31)"

definition days_before_month :: "int \<Rightarrow> int \<Rightarrow> int" where
  "days_before_month y m =
     [0, 31, 59, 90, 120, 151, 181, 212, 243, 273, 304, 334] ! nat (m - 1)
     + (if 2 < m \<and> is_leap y then 1 else 0)"

definition ymd2ord :: "int \<Rightarrow> int \<Rightarrow> int \<Rightarrow> int" where
  "ymd2ord y m d = days_before_year y + days_before_month y m + d"

definition wall_clock :: "int \<Rightarrow> int \<Rightarrow> int \<Rightarrow> int \<Rightarrow> int \<Rightarrow> int \<Rightarrow> int" where
  "wall_clock y m d h mi sec =
     (((ymd2ord y m d - 1) * 24 + h) * 3600 + mi * 60 + sec) * 1000000"

text \<open>
  \<^verbatim>\<open>datetime.fromisoformat\<close> on the strings of the examples: \<^verbatim>\<open>YYYY-MM-DDTHH:MM:SS\<close>,
  then \<^verbatim>\<open>.ffffff\<close> or nothing, then \<^verbatim>\<open>+HH:MM\<close>, \<^verbatim>\<open>-HH:MM\<close> or nothing. The environment of the examples
  rejects every other string, as every version of Python rejects \<^verbatim>\<open>not-a-time\<close>.
\<close>

definition num_of :: "string \<Rightarrow> int option" where
  "num_of s = (if ascii_isdigit s then Some (int_of_digits s) else None)"

definition iso_offset :: "string \<Rightarrow> int option" where
  "iso_offset s =
     (if length s = 6 \<and> (s ! 0 = CHR ''+'' \<or> s ! 0 = CHR ''-'') \<and> s ! 3 = CHR '':'' then
        Option.bind (num_of (take 2 (drop 1 s))) (\<lambda>h.
        Option.bind (num_of (take 2 (drop 4 s))) (\<lambda>mi.
        if h \<le> 23 \<and> mi \<le> 59 then
          Some ((if s ! 0 = CHR ''-'' then - 1 else 1) * (h * 3600 + mi * 60) * 1000000)
        else None))
      else None)"

definition iso_seconds :: "string \<Rightarrow> int option" where
  "iso_seconds s =
     (if length s = 19 \<and> s ! 4 = CHR ''-'' \<and> s ! 7 = CHR ''-'' \<and> s ! 10 = CHR ''T''
         \<and> s ! 13 = CHR '':'' \<and> s ! 16 = CHR '':'' then
        Option.bind (num_of (take 4 s)) (\<lambda>y.
        Option.bind (num_of (take 2 (drop 5 s))) (\<lambda>m.
        Option.bind (num_of (take 2 (drop 8 s))) (\<lambda>d.
        Option.bind (num_of (take 2 (drop 11 s))) (\<lambda>h.
        Option.bind (num_of (take 2 (drop 14 s))) (\<lambda>mi.
        Option.bind (num_of (take 2 (drop 17 s))) (\<lambda>sec.
        if 1 \<le> y \<and> 1 \<le> m \<and> m \<le> 12 \<and> 1 \<le> d \<and> d \<le> days_in_month y m
           \<and> h \<le> 23 \<and> mi \<le> 59 \<and> sec \<le> 59
        then Some (wall_clock y m d h mi sec) else None))))))
      else None)"

definition iso_datetime :: "string \<Rightarrow> int option" where
  "iso_datetime s =
     (if length s = 19 then iso_seconds s
      else if length s = 26 \<and> s ! 19 = CHR ''.'' then
        Option.bind (iso_seconds (take 19 s)) (\<lambda>w.
        Option.bind (num_of (drop 20 s)) (\<lambda>us. Some (w + us)))
      else None)"

definition iso_fromisoformat :: "string \<Rightarrow> (int \<times> int option) option" where
  "iso_fromisoformat s =
     (if length s = 19 \<or> length s = 26 then map_option (\<lambda>w. (w, None)) (iso_datetime s)
      else
        Option.bind (iso_datetime (take (length s - 6) s)) (\<lambda>w.
        Option.bind (iso_offset (drop (length s - 6) s)) (\<lambda>off. Some (w, Some off))))"

text \<open>
  America/New_York in 2024 (tz database): daylight time, UTC-4, for the wall-clock
  readings from 2024-03-10T03:00 up to 2024-11-03T02:00, standard time, UTC-5, for the
  others. The examples read no other year.
\<close>

definition new_york_2024 :: "int \<Rightarrow> int" where
  "new_york_2024 wall =
     (if wall_clock 2024 3 10 3 0 0 \<le> wall \<and> wall < wall_clock 2024 11 3 2 0 0
      then - 4 * 3600 * 1000000 else - 5 * 3600 * 1000000)"

text \<open>
  \<^verbatim>\<open>float\<close> on the strings of the examples: digits, with an optional sign and an optional
  fraction. \<^verbatim>\<open>str\<close> on what the examples print: None, booleans and strings.
\<close>

definition unsigned_decimal :: "string \<Rightarrow> real option" where
  "unsigned_decimal s =
     (case num_of (takeWhile (\<lambda>c. c \<noteq> CHR ''.'') s) of
        None \<Rightarrow> None
      | Some whole \<Rightarrow>
          (case dropWhile (\<lambda>c. c \<noteq> CHR ''.'') s of
             [] \<Rightarrow> Some (of_int whole)
           | c # fr \<Rightarrow>
               (case num_of fr of
                  None \<Rightarrow> None
                | Some f \<Rightarrow> Some (of_int whole + of_int f / 10 ^ length fr))))"

definition decimal_of_str :: "string \<Rightarrow> real option" where
  "decimal_of_str s =
     (case s of
        [] \<Rightarrow> None
      | c # cs \<Rightarrow>
          if c = CHR ''-'' then map_option uminus (unsigned_decimal cs)
          else unsigned_decimal s)"

definition example_str :: "json \<Rightarrow> string" where
  "example_str v =
     (case v of
        JNull \<Rightarrow> ''None''
      | JBool b \<Rightarrow> (if b then ''True'' else ''False'')
      | JStr s \<Rightarrow> s
      | _ \<Rightarrow> [])"

text \<open>
  \<^verbatim>\<open>%H:%M\<close> of an instant in 2024, in UTC or in New York (exact but for the two nights
  of the change of time), \<^verbatim>\<open>round(x, 1)\<close> away from ties, and \<^verbatim>\<open>==\<close> on values of one
  kind: the examples compare strings.
\<close>

definition two_digits :: "int \<Rightarrow> string" where
  "two_digits n = [char_of (48 + n div 10), char_of (48 + n mod 10)]"

definition example_strftime :: "bool \<Rightarrow> int \<Rightarrow> string" where
  "example_strftime local t =
     (let w = (if local then t + new_york_2024 t else t) div 60000000
      in two_digits (w div 60 mod 24) @ '':'' @ two_digits (w mod 60))"

definition example_round1 :: "real \<Rightarrow> real" where
  "example_round1 x = of_int (round (x * 10)) / 10"

text \<open>
  The environment of the examples: the clock reads 2024-07-01T12:00:00Z, the time zone
  data is there and the optional \<^verbatim>\<open>polyline\<close> package is not installed.
\<close>

definition example_env :: env where
  "example_env =
     \<lparr>fromisoformat = iso_fromisoformat,
      ZoneInfo = Some new_york_2024,
      now = wall_clock 2024 7 1 12 0 0,
      tie_rank = example_tie_rank,
      str_isdigit = ascii_isdigit,
      int_of_str = ascii_int,
      float_of_str = decimal_of_str,
      pl = None,
      py_str = example_str,
      py_eq = (\<lambda>a b. a = b),
      strftime_HM = example_strftime,
      round1 = example_round1\<rparr>"

section \<open>Example payloads\<close>

text \<open>The body \<^verbatim>\<open>_request\<close> of \<^verbatim>\<open>mbta_client.py\<close> returns when the API answers with status 500.\<close>

definition error_payload :: json where
  "error_payload =
     JObj [(''error'', JBool True),
           (''message'', JStr ''API request failed: status 500''),
           (''status_code'', JInt 500)]"

text \<open>
  A prediction resource with its direction, its predicted departure and arrival times
  and the vehicle it refers to.
\<close>

definition prediction :: "json \<Rightarrow> json \<Rightarrow> json \<Rightarrow> string \<Rightarrow> json" where
  "prediction direction_id departure_time arrival_time vehicle =
     JObj [(''type'', JStr ''prediction''),
           (''attributes'',
              JObj [(''direction_id'', direction_id),
                    (''departure_time'', departure_time),
                    (''arrival_time'', arrival_time)]),
           (''relationships'',
              JObj [(''vehicle'', JObj [(''data'', JObj [(''id'', JStr vehicle), (''type'', JStr ''vehicle'')])])])]"

text \<open>Two predictions; the departure time of the second is not a timestamp.\<close>

definition bad_time_predictions :: json where
  "bad_time_predictions =
     JObj [(''data'',
        JList [prediction (JInt 0) (JStr ''2024-07-01T08:05:00-04:00'') JNull ''R-1'',
               prediction (JInt 0) (JStr ''not-a-time'') JNull ''R-2''])]"

text \<open>An alert resource with its active periods, and one period.\<close>

definition alert :: "json \<Rightarrow> json" where
  "alert active_period =
     JObj [(''type'', JStr ''alert''),
           (''attributes'',
              JObj [(''severity'', JInt 3),
                    (''header'', JStr ''Shuttle buses replace Red Line service''),
                    (''active_period'', active_period)])]"

definition period :: "json \<Rightarrow> json \<Rightarrow> json" where
  "period start_str end_str = JObj [(''start'', start_str), (''end'', end_str)]"

text \<open>Two alerts; the start of the second is not a timestamp.\<close>

definition bad_time_alerts :: json where
  "bad_time_alerts =
     JObj [(''data'',
        JList [alert (JList [period (JStr ''2024-07-01T05:00:00-04:00'') JNull]),
               alert (JList [period (JStr ''not-a-time'') JNull])])]"

text \<open>An alert whose first period ended at 06:00 EDT and whose second covers the clock's 08:00 EDT.\<close>

definition second_period_alert :: json where
  "second_period_alert =
     alert (JList [period (JStr ''2024-07-01T05:00:00-04:00'') (JStr ''2024-07-01T06:00:00-04:00''),
                   period (JStr ''2024-07-01T07:00:00-04:00'') (JStr ''2024-07-01T09:00:00-04:00'')])"

text \<open>
  Three alerts: the one above, one without a period, and one with an open period begun
  at 07:00 EDT. The row of such an alert, with its start, its end and its status.
\<close>

definition alerts_now :: json where
  "alerts_now =
     JObj [(''data'',
        JList [second_period_alert, alert JNull,
               alert (JList [period (JStr ''2024-07-01T07:00:00-04:00'') JNull])])]"

definition shuttle_alert :: "int option \<Rightarrow> int option \<Rightarrow> string \<Rightarrow> alert_row" where
  "shuttle_alert start_time end_time status =
     \<lparr>Severity = ''Emergency'',
      Description = JStr ''Shuttle buses replace Red Line service'',
      Start_Time = start_time,
      End_Time = end_time,
      Alert_Status = status\<rparr>"

text \<open>
  Arrivals at Alewife 5 minutes, exactly 10 minutes, 10.01 minutes and exactly 60 minutes
  after the clock's 12:00:00Z, and the vehicles payload that places train R-1 at Davis.
\<close>

definition window_predictions :: json where
  "window_predictions =
     JObj [(''data'',
        JList [prediction (JInt 1) JNull (JStr ''2024-07-01T12:05:00Z'') ''R-1'',
               prediction (JInt 1) JNull (JStr ''2024-07-01T12:10:00Z'') ''R-2'',
               prediction (JInt 1) JNull (JStr ''2024-07-01T12:10:00.600000Z'') ''R-3'',
               prediction (JInt 1) JNull (JStr ''2024-07-01T13:00:00Z'') ''R-4''])]"

definition vehicles_payload :: json where
  "vehicles_payload =
     JObj [(''data'',
        JList [JObj [(''id'', JStr ''R-1''),
                     (''type'', JStr ''vehicle''),
                     (''relationships'',
                        JObj [(''stop'', JObj [(''data'', JObj [(''id'', JStr ''70063''), (''type'', JStr ''stop'')])])])]]),
           (''included'',
        JList [JObj [(''type'', JStr ''stop''), (''id'', JStr ''70063''),
                     (''attributes'', JObj [(''name'', JStr ''Davis'')])]])]"

text \<open>The row of an arrival with no schedule, predicted at \<open>t\<close>, whose train is at \<open>stop\<close>.\<close>

definition arrival_at :: "string \<Rightarrow> int \<Rightarrow> arrival_row" where
  "arrival_at stop t =
     \<lparr>Current_Stop = JStr stop,
      Scheduled_Arrival_Time = None,
      Actual_Estimated_Arrival_Time = Some t,
      Arrival_Status = ''On Time''\<rparr>"

text \<open>
  A prediction of the arrival at, and of the departure from, a stop for a vehicle, and
  a stop resource.
\<close>

definition stop_prediction :: "json \<Rightarrow> json \<Rightarrow> string \<Rightarrow> string \<Rightarrow> json" where
  "stop_prediction arrival_time departure_time vehicle stop =
     JObj [(''type'', JStr ''prediction''),
           (''attributes'', JObj [(''arrival_time'', arrival_time), (''departure_time'', departure_time)]),
           (''relationships'',
              JObj [(''vehicle'', JObj [(''data'', JObj [(''id'', JStr vehicle), (''type'', JStr ''vehicle'')])]),
                    (''stop'', JObj [(''data'', JObj [(''id'', JStr stop), (''type'', JStr ''stop'')])])])]"

definition stop_resource :: "string \<Rightarrow> string \<Rightarrow> json" where
  "stop_resource ident name =
     JObj [(''type'', JStr ''stop''), (''id'', JStr ident),
           (''attributes'', JObj [(''name'', JStr name)])]"

text \<open>
  Train R-1 is predicted at Porter in 12 minutes and at Davis in 5; a third prediction
  has no time, a fourth lies two minutes in the past. Train R-2 has no arrival time and
  departs from Porter in 3 minutes; train R-3 has one prediction, a minute in the past.
\<close>

definition next_stop_predictions :: json where
  "next_stop_predictions =
     JObj [(''data'',
        JList [stop_prediction (JStr ''2024-07-01T12:12:00Z'') JNull ''R-1'' ''70065'',
               stop_prediction (JStr ''2024-07-01T12:05:00Z'') JNull ''R-1'' ''70063'',
               stop_prediction JNull JNull ''R-1'' ''70061'',
               stop_prediction (JStr ''2024-07-01T11:58:00Z'') JNull ''R-1'' ''70067'',
               stop_prediction JNull (JStr ''2024-07-01T12:03:00Z'') ''R-2'' ''70065'',
               stop_prediction (JStr ''2024-07-01T11:59:00Z'') JNull ''R-3'' ''70063'']),
           (''included'',
        JList [stop_resource ''70063'' ''Davis'', stop_resource ''70065'' ''Porter''])]"

text \<open>
  The entries of the merger for the stop Davis, five minutes from now, and for the stop
  Porter, three minutes from now, with no schedule.
\<close>

definition davis_in_five :: next_stop where
  "davis_in_five =
     \<lparr>stop_name = JStr ''Davis'',
      expected_time = wall_clock 2024 7 1 12 5 0,
      minutes_behind = None\<rparr>"

definition porter_in_three :: next_stop where
  "porter_in_three =
     \<lparr>stop_name = JStr ''Porter'',
      expected_time = wall_clock 2024 7 1 12 3 0,
      minutes_behind = None\<rparr>"









text \<open>A shape with two points, and a shape whose latitude is not a number.\<close>

definition bad_points_shapes :: json where
  "bad_points_shapes =
     JObj [(''data'',
        JList [JObj [(''type'', JStr ''shape''),
                     (''attributes'',
                        JObj [(''points'',
                           JList [JObj [(''latitude'', JFloat 42.3954), (''longitude'', JFloat (- 71.1425))],
                                  JObj [(''latitude'', JFloat 42.3884), (''longitude'', JFloat (- 71.1191))]])])],
               JObj [(''type'', JStr ''shape''),
                     (''attributes'',
                        JObj [(''points'',
                           JList [JObj [(''latitude'', JStr ''abc''), (''longitude'', JStr ''-71.1425'')]])])]])]"

section \<open>Auxiliary facts\<close>

lemma bindE_Inl [simp]: "bindE (Inl e) f = Inl e"
  by (simp add: bindE_def)

lemma bindE_Inr [simp]: "bindE (Inr x) f = f x"
  by (simp add: bindE_def)

lemma bindE_eq_Inr: "(bindE m f = Inr y) = (\<exists>x. m = Inr x \<and> f x = Inr y)"
  by (cases m) auto

lemma isl_bindE: "isl (bindE m f) = (isl m \<or> (\<exists>x. m = Inr x \<and> isl (f x)))"
  by (cases m) auto

lemma parse_iso_falsy: "\<not> truthy s \<Longrightarrow> parse_iso E s = Inr None"
  by (simp add: parse_iso_def)

section \<open>Properties of the Status Deriver\<close>

text \<open>
  Claim C2. With the threshold of 2 minutes the Status Deriver returns Cancelled when the
  actual instant is null; otherwise On Time when the scheduled instant is null; otherwise
  On Time when actual - scheduled is at most 120 seconds (every early arrival included)
  and Delayed when it is more.
\<close>

theorem derive_status_rule:
  "derive_status scheduled None 2 = ''Cancelled''
   \<and> derive_status None (Some actual) 2 = ''On Time''
   \<and> derive_status (Some sched) (Some actual) 2 =
       (if actual - sched \<le> 120 * 1000000 then ''On Time'' else ''Delayed'')"
  by (simp add: derive_status_def)

text \<open>
  Claim C3, as stated: with scheduled = None every non-null actual instant gives
  Cancelled. It fails: the instant 0 with no schedule is On Time.
\<close>

theorem derive_status_no_schedule_counterexample:
  "derive_status None (Some 0) 2 \<noteq> ''Cancelled''"
  by (simp add: derive_status_def)

text \<open>
  Claim C3, amended: with scheduled = None every non-null actual instant gives On Time;
  the result is Cancelled exactly when the actual instant is null, whatever the schedule.
\<close>

theorem derive_status_no_schedule:
  "derive_status None (Some actual) 2 = ''On Time''
   \<and> (derive_status scheduled predicted 2 = ''Cancelled'') = (predicted = None)"
  by (simp add: derive_status_def split: option.splits)

section \<open>Properties of the Time Normalizer\<close>

text \<open>
  Claim C4. The Time Normalizer maps null and the empty string to null. Two strings that
  \<^verbatim>\<open>fromisoformat\<close> reads with explicit offsets (a \<^verbatim>\<open>Z\<close> is the offset \<^verbatim>\<open>+00:00\<close>) and
  that denote the same absolute instant, wall clock minus offset, have the same result,
  which is that instant in UTC whenever it lies in the range of \<^verbatim>\<open>datetime\<close>. A naive
  string is read as wall-clock time of America/New_York (where \<^verbatim>\<open>zoneinfo\<close> was imported)
  and converted to UTC.
\<close>

theorem parse_iso_normalizes:
  "parse_iso E JNull = Inr None
   \<and> parse_iso E (JStr []) = Inr None
   \<and> (s1 \<noteq> [] \<and> s2 \<noteq> []
        \<and> fromisoformat E (replace_Z s1) = Some (w1, Some o1)
        \<and> fromisoformat E (replace_Z s2) = Some (w2, Some o2)
        \<and> w1 - o1 = w2 - o2
      \<longrightarrow> parse_iso E (JStr s1) = parse_iso E (JStr s2)
          \<and> (0 \<le> w1 - o1 \<and> w1 - o1 \<le> MAXDT \<longrightarrow> parse_iso E (JStr s1) = Inr (Some (w1 - o1))))
   \<and> (s \<noteq> [] \<and> ZoneInfo E = Some utcoffset
        \<and> fromisoformat E (replace_Z s) = Some (w, None)
        \<and> 0 \<le> w - utcoffset w \<and> w - utcoffset w \<le> MAXDT
      \<longrightarrow> parse_iso E (JStr s) = Inr (Some (w - utcoffset w)))"
  by (simp add: parse_iso_def astimezone_utc_def)

text \<open>
  The examples of the specification: \<^verbatim>\<open>2024-01-01T08:00:00-05:00\<close> and
  \<^verbatim>\<open>2024-01-01T13:00:00Z\<close> are the same instant, and the naive \<^verbatim>\<open>2024-07-01T08:00:00\<close>
  is 12:00 UTC.
\<close>

theorem parse_iso_normalizes_witness:
  "parse_iso example_env (JStr ''2024-01-01T08:00:00-05:00'')
     = parse_iso example_env (JStr ''2024-01-01T13:00:00Z'')
   \<and> parse_iso example_env (JStr ''2024-01-01T08:00:00-05:00'') = Inr (Some (wall_clock 2024 1 1 13 0 0))
   \<and> parse_iso example_env (JStr ''2024-07-01T08:00:00'') = Inr (Some (wall_clock 2024 7 1 12 0 0))"
proof -
  have a: "fromisoformat example_env (replace_Z ''2024-01-01T08:00:00-05:00'')
             = Some (wall_clock 2024 1 1 8 0 0, Some (- 18000000000))"
    by code_simp
  have b: "fromisoformat example_env (replace_Z ''2024-01-01T13:00:00Z'')
             = Some (wall_clock 2024 1 1 13 0 0, Some 0)"
    by code_simp
  have c: "fromisoformat example_env (replace_Z ''2024-07-01T08:00:00'')
             = Some (wall_clock 2024 7 1 8 0 0, None)"
    by code_simp
  have z: "ZoneInfo example_env = Some new_york_2024"
    by (simp add: example_env_def)
  have d: "wall_clock 2024 1 1 8 0 0 - (- 18000000000) = wall_clock 2024 1 1 13 0 0 - 0"
    by code_simp
  have e: "wall_clock 2024 1 1 13 0 0 - 0 = wall_clock 2024 1 1 13 0 0"
    by simp
  have f: "wall_clock 2024 7 1 8 0 0 - new_york_2024 (wall_clock 2024 7 1 8 0 0)
             = wall_clock 2024 7 1 12 0 0"
    by code_simp
  have g: "0 \<le> wall_clock 2024 1 1 13 0 0 \<and> wall_clock 2024 1 1 13 0 0 \<le> MAXDT
           \<and> 0 \<le> wall_clock 2024 7 1 12 0 0 \<and> wall_clock 2024 7 1 12 0 0 \<le> MAXDT"
    by code_simp
  show ?thesis
    using parse_iso_normalizes [of example_env "''2024-01-01T08:00:00-05:00''" "''2024-01-01T13:00:00Z''"
        "wall_clock 2024 1 1 8 0 0" "- 18000000000" "wall_clock 2024 1 1 13 0 0" 0
        "''2024-07-01T08:00:00''" new_york_2024 "wall_clock 2024 7 1 8 0 0"]
      a b c z d e f g
    by force
qed

section \<open>Error-flagged payloads\<close>

text \<open>
  Claim C5. On a payload whose \<^verbatim>\<open>error\<close> field is truthy every flattener returns its
  empty result and raises nothing: no rows for alerts, departures, arrivals (raw,
  near-term and future, whatever the vehicles payload), and vehicle positions (plain
  and enriched, whatever the predictions payload); the empty
  mapping for the vehicle-to-stop map and the next-stop merger; no segment, the null
  merged geometry and no route entry for shapes.
\<close>

theorem error_payload_yields_empty:
  assumes "py_get payload ''error'' JNull = Inr err" and "truthy err"
  shows "parse_alerts E payload = Inr []
       \<and> parse_departures E payload = Inr []
       \<and> parse_arrivals_raw E payload = Inr []
       \<and> parse_near_term_arrivals E payload vehicles_response = Inr []
       \<and> parse_future_arrivals E payload vehicles_response = Inr []
       \<and> vehicle_to_stop_map payload = Inr Map.empty
       \<and> parse_vehicles_for_map E payload = Inr []
       \<and> parse_vehicles_for_map_enriched E payload predictions_all_stops_response = Inr []
       \<and> parse_red_line_shape E payload = Inr []
       \<and> parse_route_shapes_merged E payload = Inr None
       \<and> parse_merged_shapes_by_route E [(route_id, payload)] = Inr []
       \<and> next_stop_by_vehicle E payload = Inr Map.empty"
  using assms
  by (simp add: parse_alerts_def parse_departures_def parse_arrivals_raw_def
      parse_near_term_arrivals_def parse_future_arrivals_def vehicle_to_stop_map_def
      parse_vehicles_for_map_def parse_vehicles_for_map_enriched_def
      parse_red_line_shape_def parse_route_shapes_merged_def next_stop_by_vehicle_def)

theorem error_payload_yields_empty_witness:
  "py_get error_payload ''error'' JNull = Inr (JBool True) \<and> truthy (JBool True)
   \<and> parse_alerts example_env error_payload = Inr []
   \<and> parse_departures example_env error_payload = Inr []
   \<and> parse_near_term_arrivals example_env error_payload error_payload = Inr []
   \<and> parse_vehicles_for_map example_env error_payload = Inr []
   \<and> parse_vehicles_for_map_enriched example_env error_payload error_payload = Inr []
   \<and> parse_route_shapes_merged example_env error_payload = Inr None
   \<and> next_stop_by_vehicle example_env error_payload = Inr Map.empty"
proof -
  have h: "py_get error_payload ''error'' JNull = Inr (JBool True)"
    by (simp add: error_payload_def py_get_def)
  have t: "truthy (JBool True)"
    by simp
  show ?thesis
    using error_payload_yields_empty [OF h t, of example_env error_payload] h t
    by simp
qed

section \<open>Malformed timestamps\<close>

lemma isl_bindE_all: "isl (bindE m f) = (\<forall>x. m = Inr x \<longrightarrow> isl (f x))"
  by (cases m) auto

lemma parse_iso_malformed:
  "s \<noteq> [] \<Longrightarrow> fromisoformat E (replace_Z s) = None \<Longrightarrow> parse_iso E (JStr s) = Inl ValueError"
  by (simp add: parse_iso_def)

lemma departures_loop_raises:
  "item \<in> set items \<Longrightarrow> isl (departure_of E included item) \<Longrightarrow> isl (departures_loop E included items)"
  by (induction items) (auto simp: isl_bindE_all)

lemma arrivals_loop_raises:
  "item \<in> set items \<Longrightarrow> isl (arrival_of E included item) \<Longrightarrow> isl (arrivals_loop E included items)"
  by (induction items) (auto simp: isl_bindE_all)

lemma alerts_loop_raises:
  "item \<in> set items \<Longrightarrow> isl (alert_of E item) \<Longrightarrow> isl (alerts_loop E items)"
  by (induction items) (auto simp: isl_bindE_all)

lemma next_stop_loop_raises:
  "item \<in> set items \<Longrightarrow> isl (next_stop_of E included item) \<Longrightarrow> isl (next_stop_loop E included items by_vehicle)"
  by (induction items arbitrary: by_vehicle) (auto simp: isl_bindE_all split: option.splits)

lemma departure_of_malformed:
  assumes "s \<noteq> []" and "fromisoformat E (replace_Z s) = None"
    and "py_get item ''attributes'' (JObj []) = Inr attrs"
    and "py_get attrs ''departure_time'' JNull = Inr (JStr s) \<or> py_get attrs ''arrival_time'' JNull = Inr (JStr s)"
  shows "isl (departure_of E included item)"
  using assms
  by (auto simp: departure_of_def isl_bindE_all parse_iso_malformed)

lemma arrival_of_malformed:
  assumes "s \<noteq> []" and "fromisoformat E (replace_Z s) = None"
    and "py_get item ''attributes'' (JObj []) = Inr attrs"
    and "py_get attrs ''departure_time'' JNull = Inr (JStr s) \<or> py_get attrs ''arrival_time'' JNull = Inr (JStr s)"
  shows "isl (arrival_of E included item)"
  using assms
  by (auto simp: arrival_of_def isl_bindE_all parse_iso_malformed)

lemma next_stop_of_malformed:
  assumes "s \<noteq> []" and "fromisoformat E (replace_Z s) = None"
    and "py_get item ''attributes'' (JObj []) = Inr attrs"
    and "py_get attrs ''arrival_time'' JNull = Inr pred_arr"
    and "py_get attrs ''departure_time'' JNull = Inr pred_dep"
    and "py_or pred_arr pred_dep = JStr s"
    and "py_get item ''relationships'' (JObj []) = Inr rels"
    and "rel_id rels ''vehicle'' = Inr vid" and "truthy vid"
  shows "isl (next_stop_of E included item)"
  using assms
  by (auto simp: next_stop_of_def isl_bindE_all parse_iso_malformed)

lemma alert_period_malformed:
  assumes "s \<noteq> []" and "fromisoformat E (replace_Z s) = None"
    and "py_get first ''start'' JNull = Inr (JStr s)"
  shows "isl (alert_period E (py_or (JList (first # rest)) (JList [])))"
  using assms
  by (simp add: alert_period_def isl_bindE_all parse_iso_malformed py_or_def)

lemma alert_of_malformed:
  assumes "s \<noteq> []" and "fromisoformat E (replace_Z s) = None"
    and "py_get item ''attributes'' (JObj []) = Inr attrs"
    and "py_get attrs ''active_period'' JNull = Inr (JList (first # rest))"
    and "py_get first ''start'' JNull = Inr (JStr s)"
  shows "isl (alert_of E item)"
  using assms alert_period_malformed [of s E first rest]
  by (auto simp: alert_of_def isl_bindE_all)

text \<open>
  Claim C1, amended: no flattener handles a malformed timestamp locally. When a record of
  the payload carries, in a field the operation parses, a string that
  \<^verbatim>\<open>datetime.fromisoformat\<close> rejects, the call raises and returns no rows at all:
  \<^verbatim>\<open>parse_departures\<close> and \<^verbatim>\<open>_parse_arrivals_raw\<close> for the predicted departure or arrival
  time of any prediction, \<^verbatim>\<open>_next_stop_by_vehicle\<close> for the predicted time (arrival, else
  departure) of a prediction with a vehicle id, \<^verbatim>\<open>parse_alerts\<close> for the start of the
  first active period of an alert.
\<close>

theorem malformed_timestamp_propagates:
  assumes "s \<noteq> []" and "fromisoformat E (replace_Z s) = None"
    and "py_get payload ''error'' JNull = Inr err" and "\<not> truthy err"
    and "py_get payload ''data'' (JList []) = Inr (JList items)"
    and "item \<in> set items"
    and "py_get item ''attributes'' (JObj []) = Inr attrs"
  shows "(py_get attrs ''departure_time'' JNull = Inr (JStr s)
            \<or> py_get attrs ''arrival_time'' JNull = Inr (JStr s)
          \<longrightarrow> isl (parse_departures E payload) \<and> isl (parse_arrivals_raw E payload))
       \<and> (py_get attrs ''arrival_time'' JNull = Inr pred_arr
            \<and> py_get attrs ''departure_time'' JNull = Inr pred_dep
            \<and> py_or pred_arr pred_dep = JStr s
            \<and> py_get item ''relationships'' (JObj []) = Inr rels
            \<and> rel_id rels ''vehicle'' = Inr vid \<and> truthy vid
          \<longrightarrow> isl (next_stop_by_vehicle E payload))
       \<and> (py_get attrs ''active_period'' JNull = Inr (JList (first # rest))
            \<and> py_get first ''start'' JNull = Inr (JStr s)
          \<longrightarrow> isl (parse_alerts E payload))"
proof (intro conjI impI)
  assume bad: "py_get attrs ''departure_time'' JNull = Inr (JStr s)
                 \<or> py_get attrs ''arrival_time'' JNull = Inr (JStr s)"
  have "isl (departure_of E included item)" for included
    using assms(1,2,7) bad by (rule departure_of_malformed)
  then have "isl (departures_loop E included items)" for included
    using assms(6) departures_loop_raises by blast
  then have "departures_loop E included items \<noteq> Inr rows" for included rows
    by (metis sum.disc(2))
  then show "isl (parse_departures E payload)"
    using assms(3,4,5) by (simp add: parse_departures_def isl_bindE_all)
  have "isl (arrival_of E included item)" for included
    using assms(1,2,7) bad by (rule arrival_of_malformed)
  then have "isl (arrivals_loop E included items)" for included
    using assms(6) arrivals_loop_raises by blast
  then show "isl (parse_arrivals_raw E payload)"
    using assms(3,4,5) by (simp add: parse_arrivals_raw_def isl_bindE_all)
next
  assume bad: "py_get attrs ''arrival_time'' JNull = Inr pred_arr
                 \<and> py_get attrs ''departure_time'' JNull = Inr pred_dep
                 \<and> py_or pred_arr pred_dep = JStr s
                 \<and> py_get item ''relationships'' (JObj []) = Inr rels
                 \<and> rel_id rels ''vehicle'' = Inr vid \<and> truthy vid"
  have "isl (next_stop_of E included item)" for included
    using assms(1,2,7) bad next_stop_of_malformed by blast
  then have "isl (next_stop_loop E included items by_vehicle)" for included by_vehicle
    using assms(6) next_stop_loop_raises by blast
  then show "isl (next_stop_by_vehicle E payload)"
    using assms(3,4,5) by (simp add: next_stop_by_vehicle_def isl_bindE_all)
next
  assume bad: "py_get attrs ''active_period'' JNull = Inr (JList (first # rest))
                 \<and> py_get first ''start'' JNull = Inr (JStr s)"
  have "isl (alert_of E item)"
    using assms(1,2,7) bad alert_of_malformed by blast
  then have "isl (alerts_loop E items)"
    using assms(6) alerts_loop_raises by blast
  then show "isl (parse_alerts E payload)"
    using assms(3,4,5) by (simp add: parse_alerts_def isl_bindE_all)
qed

text \<open>An error result is read off the result with its value forgotten.\<close>

lemma Inl_by_projection: "map_sum id (\<lambda>x. ()) m = Inl e \<Longrightarrow> m = Inl e"
  by (cases m) auto

text \<open>
  Claim C1, as stated: with one record carrying a malformed timestamp each flattener
  substitutes null or drops the record, never raises, and emits the rows of the other
  records. It fails: on two records, the first well-formed and the second with the
  time \<^verbatim>\<open>not-a-time\<close>, each of the four operations raises ValueError.
\<close>

theorem malformed_timestamp_counterexample:
  "parse_departures example_env bad_time_predictions = Inl ValueError
   \<and> parse_arrivals_raw example_env bad_time_predictions = Inl ValueError
   \<and> next_stop_by_vehicle example_env bad_time_predictions = Inl ValueError
   \<and> parse_alerts example_env bad_time_alerts = Inl ValueError"
proof (intro conjI)
  show "parse_departures example_env bad_time_predictions = Inl ValueError"
    by code_simp
  show "parse_arrivals_raw example_env bad_time_predictions = Inl ValueError"
    by code_simp
  have "map_sum id (\<lambda>x. ()) (next_stop_by_vehicle example_env bad_time_predictions) = Inl ValueError"
    by code_simp
  then show "next_stop_by_vehicle example_env bad_time_predictions = Inl ValueError"
    by (rule Inl_by_projection)
  show "parse_alerts example_env bad_time_alerts = Inl ValueError"
    by code_simp
qed


text \<open>The amended claim on the same two payloads.\<close>

theorem malformed_timestamp_propagates_witness:
  "isl (parse_departures example_env bad_time_predictions)
   \<and> isl (parse_arrivals_raw example_env bad_time_predictions)
   \<and> isl (next_stop_by_vehicle example_env bad_time_predictions)
   \<and> isl (parse_alerts example_env bad_time_alerts)"
proof -
  have bad: "''not-a-time'' \<noteq> []" "fromisoformat example_env (replace_Z ''not-a-time'') = None"
    by code_simp+
  have falsy: "\<not> truthy JNull"
    by simp
  have p: "py_get bad_time_predictions ''error'' JNull = Inr JNull"
    "py_get bad_time_predictions ''data'' (JList []) =
       Inr (JList [prediction (JInt 0) (JStr ''2024-07-01T08:05:00-04:00'') JNull ''R-1'',
                   prediction (JInt 0) (JStr ''not-a-time'') JNull ''R-2''])"
    "prediction (JInt 0) (JStr ''not-a-time'') JNull ''R-2''
       \<in> set [prediction (JInt 0) (JStr ''2024-07-01T08:05:00-04:00'') JNull ''R-1'',
              prediction (JInt 0) (JStr ''not-a-time'') JNull ''R-2'']"
    "py_get (prediction (JInt 0) (JStr ''not-a-time'') JNull ''R-2'') ''attributes'' (JObj []) =
       Inr (JObj [(''direction_id'', JInt 0), (''departure_time'', JStr ''not-a-time''),
                  (''arrival_time'', JNull)])"
    by (simp_all add: bad_time_predictions_def prediction_def py_get_def)
  have q: "py_get (JObj [(''direction_id'', JInt 0), (''departure_time'', JStr ''not-a-time''),
                         (''arrival_time'', JNull)]) ''departure_time'' JNull = Inr (JStr ''not-a-time'')"
    "py_get (JObj [(''direction_id'', JInt 0), (''departure_time'', JStr ''not-a-time''),
                   (''arrival_time'', JNull)]) ''arrival_time'' JNull = Inr JNull"
    "py_or JNull (JStr ''not-a-time'') = JStr ''not-a-time''"
    "py_get (prediction (JInt 0) (JStr ''not-a-time'') JNull ''R-2'') ''relationships'' (JObj []) =
       Inr (JObj [(''vehicle'', JObj [(''data'', JObj [(''id'', JStr ''R-2''), (''type'', JStr ''vehicle'')])])])"
    "rel_id (JObj [(''vehicle'', JObj [(''data'', JObj [(''id'', JStr ''R-2''), (''type'', JStr ''vehicle'')])])])
       ''vehicle'' = Inr (JStr ''R-2'')"
    "truthy (JStr ''R-2'')"
    by (simp_all add: prediction_def py_get_def py_or_def rel_id_def is_dict_def)
  have a: "py_get bad_time_alerts ''error'' JNull = Inr JNull"
    "py_get bad_time_alerts ''data'' (JList []) =
       Inr (JList [alert (JList [period (JStr ''2024-07-01T05:00:00-04:00'') JNull]),
                   alert (JList [period (JStr ''not-a-time'') JNull])])"
    "alert (JList [period (JStr ''not-a-time'') JNull])
       \<in> set [alert (JList [period (JStr ''2024-07-01T05:00:00-04:00'') JNull]),
              alert (JList [period (JStr ''not-a-time'') JNull])]"
    "py_get (alert (JList [period (JStr ''not-a-time'') JNull])) ''attributes'' (JObj []) =
       Inr (JObj [(''severity'', JInt 3),
                  (''header'', JStr ''Shuttle buses replace Red Line service''),
                  (''active_period'', JList [period (JStr ''not-a-time'') JNull])])"
    "py_get (JObj [(''severity'', JInt 3),
                   (''header'', JStr ''Shuttle buses replace Red Line service''),
                   (''active_period'', JList [period (JStr ''not-a-time'') JNull])])
       ''active_period'' JNull = Inr (JList [period (JStr ''not-a-time'') JNull])"
    "py_get (period (JStr ''not-a-time'') JNull) ''start'' JNull = Inr (JStr ''not-a-time'')"
    by (simp_all add: bad_time_alerts_def alert_def period_def py_get_def)
  show ?thesis
    using malformed_timestamp_propagates [OF bad p(1) falsy p(2) p(3) p(4),
        of JNull "JStr ''not-a-time''" _ "JStr ''R-2''"]
      malformed_timestamp_propagates [OF bad a(1) falsy a(2) a(3) a(4),
        of _ _ _ _ "period (JStr ''not-a-time'') JNull" "[]"]
      q a(5) a(6)
    by simp
qed

section \<open>Alerts read their first active period\<close>

lemma period_active_iff:
  "period_active t0 start_time end_time =
     (\<exists>st. start_time = Some st \<and> st \<le> t0 \<and> (end_time = None \<or> (\<exists>en. end_time = Some en \<and> t0 < en)))"
  by (auto simp: period_active_def split: option.splits)

text \<open>The loop appends one row for each alert of the payload, in the order of the payload.\<close>

lemma alerts_loop_rows:
  "alerts_loop E items = Inr rows \<Longrightarrow>
     length rows = length items \<and> (\<forall>i < length items. alert_of E (items ! i) = Inr (rows ! i))"
proof (induction items arbitrary: rows)
  case Nil
  then show ?case by simp
next
  case (Cons item rest)
  from Cons.prems obtain row rows' where
    r: "alert_of E item = Inr row"
    and l: "alerts_loop E rest = Inr rows'"
    and rows: "rows = row # rows'"
    by (auto simp: bindE_eq_Inr)
  from Cons.IH [OF l] r rows show ?case
    by (auto simp: nth_Cons split: nat.splits)
qed

text \<open>Only a non-empty list has a first element whose \<^verbatim>\<open>get\<close> can be called.\<close>

lemma py_first_dict:
  "py_first ap = Inr first \<Longrightarrow> py_get first k dflt = Inr v \<Longrightarrow> \<exists>rest. ap = JList (first # rest)"
  by (cases ap rule: py_first.cases) (auto simp: py_get_def)

lemma alert_period_cases:
  assumes "alert_period E (py_or ap (JList [])) = Inr per"
  shows "(\<not> truthy ap \<and> per = (None, None, ''Inactive''))
       \<or> (\<exists>first rest start_str end_str.
             ap = JList (first # rest)
           \<and> py_get first ''start'' JNull = Inr start_str
           \<and> py_get first ''end'' JNull = Inr end_str
           \<and> parse_iso E start_str = Inr (fst per)
           \<and> parse_iso E end_str = Inr (fst (snd per))
           \<and> snd (snd per) =
               (if period_active (now E) (fst per) (fst (snd per)) then ''Active'' else ''Inactive''))"
proof (cases "truthy ap")
  case False
  with assms show ?thesis
    by (simp add: py_or_def alert_period_def)
next
  case True
  with assms obtain first start_str end_str start_time end_time where
    f: "py_first ap = Inr first"
    and s: "py_get first ''start'' JNull = Inr start_str"
    and e: "py_get first ''end'' JNull = Inr end_str"
    and st: "(if truthy start_str then parse_iso E start_str else Inr None) = Inr start_time"
    and en: "(if truthy end_str then parse_iso E end_str else Inr None) = Inr end_time"
    and p: "per = (start_time, end_time,
                   if period_active (now E) start_time end_time then ''Active'' else ''Inactive'')"
    by (auto simp: py_or_def alert_period_def bindE_eq_Inr)
  from py_first_dict [OF f s] obtain rest where ap: "ap = JList (first # rest)"
    by blast
  from st have st': "parse_iso E start_str = Inr start_time"
    by (simp add: parse_iso_falsy split: if_splits)
  from en have en': "parse_iso E end_str = Inr end_time"
    by (simp add: parse_iso_falsy split: if_splits)
  from ap s e st' en' p show ?thesis
    by simp
qed

lemma alert_of_period:
  assumes "alert_of E item = Inr row"
  shows "\<exists>attrs ap per.
           py_get item ''attributes'' (JObj []) = Inr attrs
         \<and> py_get attrs ''active_period'' JNull = Inr ap
         \<and> alert_period E (py_or ap (JList [])) = Inr per
         \<and> Start_Time row = fst per \<and> End_Time row = fst (snd per)
         \<and> Alert_Status row = snd (snd per)"
  using assms by (auto simp: alert_of_def bindE_eq_Inr)

text \<open>
  Claim C10. Where \<^verbatim>\<open>parse_alerts\<close> returns, it returns one row for each alert of the
  payload, in order, and the row of an alert is computed from the first element of its
  \<^verbatim>\<open>active_period\<close> alone. An alert with no period (the field is absent, null or empty)
  has null Start and End and is Inactive. Otherwise the field is a list \<open>first # rest\<close>,
  the Start and End columns are the parsed \<^verbatim>\<open>start\<close> and \<^verbatim>\<open>end\<close> of \<open>first\<close>, and the row is
  Active exactly when that start is not null and not after now and the end is absent or
  after now, Inactive otherwise. The later periods \<open>rest\<close> have no part in the row.
\<close>

theorem alert_status_from_first_period:
  assumes "parse_alerts E payload = Inr rows"
    and "py_get payload ''error'' JNull = Inr err" and "\<not> truthy err"
    and "py_get payload ''data'' (JList []) = Inr data"
    and "py_iter data = Inr items"
  shows "length rows = length items
       \<and> (\<forall>i < length items. \<exists>attrs ap.
            py_get (items ! i) ''attributes'' (JObj []) = Inr attrs
          \<and> py_get attrs ''active_period'' JNull = Inr ap
          \<and> ((\<not> truthy ap
               \<and> Start_Time (rows ! i) = None \<and> End_Time (rows ! i) = None
               \<and> Alert_Status (rows ! i) = ''Inactive'')
             \<or> (\<exists>first rest start_str end_str.
                   ap = JList (first # rest)
                 \<and> py_get first ''start'' JNull = Inr start_str
                 \<and> py_get first ''end'' JNull = Inr end_str
                 \<and> parse_iso E start_str = Inr (Start_Time (rows ! i))
                 \<and> parse_iso E end_str = Inr (End_Time (rows ! i))
                 \<and> Alert_Status (rows ! i) =
                     (if \<exists>st. Start_Time (rows ! i) = Some st \<and> st \<le> now E
                              \<and> (End_Time (rows ! i) = None
                                 \<or> (\<exists>en. End_Time (rows ! i) = Some en \<and> now E < en))
                      then ''Active'' else ''Inactive''))))"
proof -
  from assms have loop: "alerts_loop E items = Inr rows"
    by (simp add: parse_alerts_def)
  note rows = alerts_loop_rows [OF loop]
  show ?thesis
  proof (intro conjI allI impI)
    show "length rows = length items"
      using rows by simp
  next
    fix i
    assume "i < length items"
    with rows have "alert_of E (items ! i) = Inr (rows ! i)"
      by simp
    from alert_of_period [OF this] obtain attrs ap per where
      a: "py_get (items ! i) ''attributes'' (JObj []) = Inr attrs"
      and p: "py_get attrs ''active_period'' JNull = Inr ap"
      and per: "alert_period E (py_or ap (JList [])) = Inr per"
      and row: "Start_Time (rows ! i) = fst per" "End_Time (rows ! i) = fst (snd per)"
        "Alert_Status (rows ! i) = snd (snd per)"
      by blast
    from alert_period_cases [OF per] consider
      (none) "\<not> truthy ap" "per = (None, None, ''Inactive'')"
      | (some) first rest start_str end_str where
          "ap = JList (first # rest)"
          "py_get first ''start'' JNull = Inr start_str"
          "py_get first ''end'' JNull = Inr end_str"
          "parse_iso E start_str = Inr (fst per)"
          "parse_iso E end_str = Inr (fst (snd per))"
          "snd (snd per) =
             (if period_active (now E) (fst per) (fst (snd per)) then ''Active'' else ''Inactive'')"
      by blast
    then have "(\<not> truthy ap
               \<and> Start_Time (rows ! i) = None \<and> End_Time (rows ! i) = None
               \<and> Alert_Status (rows ! i) = ''Inactive'')
             \<or> (\<exists>first rest start_str end_str.
                   ap = JList (first # rest)
                 \<and> py_get first ''start'' JNull = Inr start_str
                 \<and> py_get first ''end'' JNull = Inr end_str
                 \<and> parse_iso E start_str = Inr (Start_Time (rows ! i))
                 \<and> parse_iso E end_str = Inr (End_Time (rows ! i))
                 \<and> Alert_Status (rows ! i) =
                     (if \<exists>st. Start_Time (rows ! i) = Some st \<and> st \<le> now E
                              \<and> (End_Time (rows ! i) = None
                                 \<or> (\<exists>en. End_Time (rows ! i) = Some en \<and> now E < en))
                      then ''Active'' else ''Inactive''))"
    proof cases
      case none
      with row show ?thesis
        by simp
    next
      case some
      with row show ?thesis
        by (simp add: period_active_iff split del: if_split)
    qed
    with a p show "\<exists>attrs ap.
            py_get (items ! i) ''attributes'' (JObj []) = Inr attrs
          \<and> py_get attrs ''active_period'' JNull = Inr ap
          \<and> ((\<not> truthy ap
               \<and> Start_Time (rows ! i) = None \<and> End_Time (rows ! i) = None
               \<and> Alert_Status (rows ! i) = ''Inactive'')
             \<or> (\<exists>first rest start_str end_str.
                   ap = JList (first # rest)
                 \<and> py_get first ''start'' JNull = Inr start_str
                 \<and> py_get first ''end'' JNull = Inr end_str
                 \<and> parse_iso E start_str = Inr (Start_Time (rows ! i))
                 \<and> parse_iso E end_str = Inr (End_Time (rows ! i))
                 \<and> Alert_Status (rows ! i) =
                     (if \<exists>st. Start_Time (rows ! i) = Some st \<and> st \<le> now E
                              \<and> (End_Time (rows ! i) = None
                                 \<or> (\<exists>en. End_Time (rows ! i) = Some en \<and> now E < en))
                      then ''Active'' else ''Inactive'')))"
      by blast
  qed
qed

text \<open>
  Three alerts at 08:00 EDT: the first with a period ended at 06:00 and a second one
  that covers now, the second with no period, the third with an open period begun at
  07:00. The rows come in this order: Inactive with the start and end of the first
  period, Inactive with null times, Active.
\<close>

theorem alert_status_from_first_period_witness:
  "parse_alerts example_env alerts_now =
     Inr [shuttle_alert (Some (wall_clock 2024 7 1 9 0 0)) (Some (wall_clock 2024 7 1 10 0 0)) ''Inactive'',
          shuttle_alert None None ''Inactive'',
          shuttle_alert (Some (wall_clock 2024 7 1 11 0 0)) None ''Active'']
   \<and> py_get alerts_now ''error'' JNull = Inr JNull \<and> \<not> truthy JNull
   \<and> py_get alerts_now ''data'' (JList []) =
       Inr (JList [second_period_alert, alert JNull,
                   alert (JList [period (JStr ''2024-07-01T07:00:00-04:00'') JNull])])
   \<and> length [shuttle_alert (Some (wall_clock 2024 7 1 9 0 0)) (Some (wall_clock 2024 7 1 10 0 0)) ''Inactive'',
             shuttle_alert None None ''Inactive'',
             shuttle_alert (Some (wall_clock 2024 7 1 11 0 0)) None ''Active'']
       = length [second_period_alert, alert JNull,
                 alert (JList [period (JStr ''2024-07-01T07:00:00-04:00'') JNull])]
   \<and> (\<exists>attrs ap.
          py_get (alert JNull) ''attributes'' (JObj []) = Inr attrs
        \<and> py_get attrs ''active_period'' JNull = Inr ap \<and> \<not> truthy ap)
   \<and> (\<exists>attrs first rest start_str end_str.
          py_get second_period_alert ''attributes'' (JObj []) = Inr attrs
        \<and> py_get attrs ''active_period'' JNull = Inr (JList (first # rest))
        \<and> py_get first ''start'' JNull = Inr start_str
        \<and> py_get first ''end'' JNull = Inr end_str
        \<and> parse_iso example_env start_str = Inr (Some (wall_clock 2024 7 1 9 0 0))
        \<and> parse_iso example_env end_str = Inr (Some (wall_clock 2024 7 1 10 0 0)))"
proof -
  let ?items = "[second_period_alert, alert JNull,
                 alert (JList [period (JStr ''2024-07-01T07:00:00-04:00'') JNull])]"
  let ?rows = "[shuttle_alert (Some (wall_clock 2024 7 1 9 0 0)) (Some (wall_clock 2024 7 1 10 0 0)) ''Inactive'',
          shuttle_alert None None ''Inactive'',
          shuttle_alert (Some (wall_clock 2024 7 1 11 0 0)) None ''Active'']"
  have r: "parse_alerts example_env alerts_now = Inr ?rows"
    by code_simp
  have p: "py_get alerts_now ''error'' JNull = Inr JNull" "\<not> truthy JNull"
    "py_get alerts_now ''data'' (JList []) = Inr (JList ?items)"
    "py_iter (JList ?items) = Inr ?items"
    by (simp_all add: alerts_now_def py_get_def)
  note t = alert_status_from_first_period [OF r p]
  from t have len: "length ?rows = length ?items"
    by blast
  from t [THEN conjunct2, rule_format, of 1]
  have none: "\<exists>attrs ap.
          py_get (alert JNull) ''attributes'' (JObj []) = Inr attrs
        \<and> py_get attrs ''active_period'' JNull = Inr ap \<and> \<not> truthy ap"
    by (auto simp: alert_def py_get_def)
  from t [THEN conjunct2, rule_format, of 0]
  have first: "\<exists>attrs first rest start_str end_str.
          py_get second_period_alert ''attributes'' (JObj []) = Inr attrs
        \<and> py_get attrs ''active_period'' JNull = Inr (JList (first # rest))
        \<and> py_get first ''start'' JNull = Inr start_str
        \<and> py_get first ''end'' JNull = Inr end_str
        \<and> parse_iso example_env start_str = Inr (Some (wall_clock 2024 7 1 9 0 0))
        \<and> parse_iso example_env end_str = Inr (Some (wall_clock 2024 7 1 10 0 0))"
    by (auto simp: shuttle_alert_def)
  from r p(1,2,3) len none first show ?thesis
    by simp
qed

section \<open>Near-term and future arrivals\<close>

lemma with_current_stop_snd:
  "with_current_stop m raw = Inr rows \<Longrightarrow> map snd rows = raw"
  by (induction raw arbitrary: rows) (auto simp: bindE_eq_Inr)

lemma in_window_10_60: "in_window t0 10 t \<Longrightarrow> in_window t0 60 t"
  by (auto simp: in_window_def split: option.splits)

text \<open>
  Claim C7, amended: the near-term and the future view are the same arrival extraction
  (the rows of \<^verbatim>\<open>_parse_arrivals_raw\<close> with their current stop), filtered against the
  best-available arrival instant to the closed windows from now to now + 10 minutes and
  from now to now + 60 minutes. The windows are nested, not disjoint: every near-term
  row is a future row. Each window includes its end: an arrival exactly at now + 10
  minutes is in the near-term window, one at now + 10.01 minutes is not, and one at
  exactly now + 60 minutes is in the future window.
\<close>

theorem arrival_windows_nested:
  assumes "parse_near_term_arrivals E predictions_response vehicles_response = Inr near"
    and "parse_future_arrivals E predictions_response vehicles_response = Inr future"
  shows "(\<exists>raw rows.
            parse_arrivals_raw E predictions_response = Inr raw
          \<and> map snd rows = raw
          \<and> near = map arrival_columns
                     (filter (\<lambda>p. in_window (now E) 10 (arrival_time_dt (snd p))) rows)
          \<and> future = map arrival_columns
                     (filter (\<lambda>p. in_window (now E) 60 (arrival_time_dt (snd p))) rows))
       \<and> set near \<subseteq> set future
       \<and> in_window (now E) 10 (Some (now E + 10 * 60000000))
       \<and> \<not> in_window (now E) 10 (Some (now E + 600600000))
       \<and> in_window (now E) 60 (Some (now E + 60 * 60000000))"
proof -
  from assms(1) obtain raw where raw: "parse_arrivals_raw E predictions_response = Inr raw"
    by (auto simp: parse_near_term_arrivals_def bindE_eq_Inr)
  have ex: "\<exists>rows. map snd rows = raw
      \<and> near = map arrival_columns
                 (filter (\<lambda>p. in_window (now E) 10 (arrival_time_dt (snd p))) rows)
      \<and> future = map arrival_columns
                 (filter (\<lambda>p. in_window (now E) 60 (arrival_time_dt (snd p))) rows)"
  proof (cases "raw = []")
    case True
    with assms raw show ?thesis
      by (simp add: parse_near_term_arrivals_def parse_future_arrivals_def)
  next
    case False
    with assms raw obtain m rows where
      "vehicle_to_stop_map vehicles_response = Inr m"
      and rows: "with_current_stop m raw = Inr rows"
      and "near = map arrival_columns
                 (filter (\<lambda>p. in_window (now E) 10 (arrival_time_dt (snd p))) rows)"
      and "future = map arrival_columns
                 (filter (\<lambda>p. in_window (now E) 60 (arrival_time_dt (snd p))) rows)"
      by (auto simp: parse_near_term_arrivals_def parse_future_arrivals_def bindE_eq_Inr)
    with with_current_stop_snd [OF rows] show ?thesis
      by blast
  qed
  then have "set near \<subseteq> set future"
    using in_window_10_60 by auto
  with raw ex show ?thesis
    by (simp add: in_window_def)
qed

text \<open>
  Claim C7, as stated: the two views are filtered to disjoint windows. It fails: an
  arrival five minutes from now is a row of the near-term view and of the future view.
\<close>

theorem arrival_windows_disjoint_counterexample:
  "parse_near_term_arrivals example_env
      (JObj [(''data'', JList [prediction (JInt 1) JNull (JStr ''2024-07-01T12:05:00Z'') ''R-1''])])
      vehicles_payload
     = Inr [arrival_at ''Davis'' (wall_clock 2024 7 1 12 5 0)]
   \<and> parse_future_arrivals example_env
      (JObj [(''data'', JList [prediction (JInt 1) JNull (JStr ''2024-07-01T12:05:00Z'') ''R-1''])])
      vehicles_payload
     = Inr [arrival_at ''Davis'' (wall_clock 2024 7 1 12 5 0)]"
  by code_simp

text \<open>The four arrivals at 5, 10, 10.01 and 60 minutes from now.\<close>

theorem arrival_windows_nested_witness:
  "parse_near_term_arrivals example_env window_predictions vehicles_payload =
     Inr [arrival_at ''Davis'' (wall_clock 2024 7 1 12 5 0),
          arrival_at ''Unknown'' (wall_clock 2024 7 1 12 10 0)]
   \<and> parse_future_arrivals example_env window_predictions vehicles_payload =
     Inr [arrival_at ''Davis'' (wall_clock 2024 7 1 12 5 0),
          arrival_at ''Unknown'' (wall_clock 2024 7 1 12 10 0),
          arrival_at ''Unknown'' (wall_clock 2024 7 1 12 10 0 + 600000),
          arrival_at ''Unknown'' (wall_clock 2024 7 1 13 0 0)]
   \<and> set [arrival_at ''Davis'' (wall_clock 2024 7 1 12 5 0),
          arrival_at ''Unknown'' (wall_clock 2024 7 1 12 10 0)]
      \<subseteq> set [arrival_at ''Davis'' (wall_clock 2024 7 1 12 5 0),
          arrival_at ''Unknown'' (wall_clock 2024 7 1 12 10 0),
          arrival_at ''Unknown'' (wall_clock 2024 7 1 12 10 0 + 600000),
          arrival_at ''Unknown'' (wall_clock 2024 7 1 13 0 0)]
   \<and> in_window (now example_env) 10 (Some (now example_env + 10 * 60000000))
   \<and> \<not> in_window (now example_env) 10 (Some (now example_env + 600600000))
   \<and> in_window (now example_env) 60 (Some (now example_env + 60 * 60000000))"
proof -
  have n: "parse_near_term_arrivals example_env window_predictions vehicles_payload =
     Inr [arrival_at ''Davis'' (wall_clock 2024 7 1 12 5 0),
          arrival_at ''Unknown'' (wall_clock 2024 7 1 12 10 0)]"
    by code_simp
  have f: "parse_future_arrivals example_env window_predictions vehicles_payload =
     Inr [arrival_at ''Davis'' (wall_clock 2024 7 1 12 5 0),
          arrival_at ''Unknown'' (wall_clock 2024 7 1 12 10 0),
          arrival_at ''Unknown'' (wall_clock 2024 7 1 12 10 0 + 600000),
          arrival_at ''Unknown'' (wall_clock 2024 7 1 13 0 0)]"
    by code_simp
  show ?thesis
    using arrival_windows_nested [OF n f] n f
    by blast
qed

section \<open>The merger keeps the earliest future prediction\<close>

lemma keep_earliest_cases:
  "keep_earliest m k entry k' = Some e \<Longrightarrow> m k' = Some e \<or> (k' = k \<and> e = entry)"
  by (auto simp: keep_earliest_def split: option.splits if_splits)

lemma keep_earliest_le:
  "m k' = Some e0 \<Longrightarrow> \<exists>e. keep_earliest m k entry k' = Some e \<and> expected_time e \<le> expected_time e0"
  by (auto simp: keep_earliest_def split: option.splits)

lemma keep_earliest_new:
  "\<exists>e. keep_earliest m k entry k = Some e \<and> expected_time e \<le> expected_time entry"
  by (auto simp: keep_earliest_def split: option.splits)

lemma next_stop_loop_from:
  "next_stop_loop E included items m0 = Inr m \<Longrightarrow> m k = Some e \<Longrightarrow>
     m0 k = Some e
     \<or> (\<exists>item \<in> set items. \<exists>vid. next_stop_of E included item = Inr (Some (vid, e)) \<and> py_key vid = Inr k)"
proof (induction items arbitrary: m0)
  case Nil
  then show ?case by simp
next
  case (Cons item rest)
  from Cons.prems(1) obtain r where r: "next_stop_of E included item = Inr r"
    by (auto simp: bindE_eq_Inr)
  show ?case
  proof (cases r)
    case None
    with Cons r show ?thesis by auto
  next
    case (Some p)
    obtain vid entry where p: "p = (vid, entry)" by (cases p)
    with Some r Cons.prems(1) obtain k0 where k0: "py_key vid = Inr k0"
      and loop: "next_stop_loop E included rest (keep_earliest m0 k0 entry) = Inr m"
      by (auto simp: bindE_eq_Inr)
    from Cons.IH [OF loop Cons.prems(2)] show ?thesis
    proof
      assume "keep_earliest m0 k0 entry k = Some e"
      from keep_earliest_cases [OF this] show ?thesis
        using r Some p k0 by auto
    next
      assume "\<exists>item\<in>set rest. \<exists>vid. next_stop_of E included item = Inr (Some (vid, e)) \<and> py_key vid = Inr k"
      then show ?thesis by auto
    qed
  qed
qed

lemma next_stop_loop_keeps:
  "next_stop_loop E included items m0 = Inr m \<Longrightarrow> m0 k = Some e0 \<Longrightarrow>
     \<exists>e. m k = Some e \<and> expected_time e \<le> expected_time e0"
proof (induction items arbitrary: m0 e0)
  case Nil
  then show ?case by simp
next
  case (Cons item rest)
  from Cons.prems(1) obtain r where r: "next_stop_of E included item = Inr r"
    by (auto simp: bindE_eq_Inr)
  show ?case
  proof (cases r)
    case None
    with Cons r show ?thesis by auto
  next
    case (Some p)
    obtain vid entry where p: "p = (vid, entry)" by (cases p)
    with Some r Cons.prems(1) obtain k0 where k0: "py_key vid = Inr k0"
      and loop: "next_stop_loop E included rest (keep_earliest m0 k0 entry) = Inr m"
      by (auto simp: bindE_eq_Inr)
    from keep_earliest_le [of m0 k e0 k0 entry, OF Cons.prems(2)] obtain e1 where
      e1: "keep_earliest m0 k0 entry k = Some e1" "expected_time e1 \<le> expected_time e0"
      by blast
    from Cons.IH [OF loop e1(1)] e1(2) show ?thesis
      by auto
  qed
qed

lemma next_stop_loop_earliest:
  "next_stop_loop E included items m0 = Inr m \<Longrightarrow> item \<in> set items \<Longrightarrow>
   next_stop_of E included item = Inr (Some (vid, entry)) \<Longrightarrow> py_key vid = Inr k \<Longrightarrow>
     \<exists>e. m k = Some e \<and> expected_time e \<le> expected_time entry"
proof (induction items arbitrary: m0)
  case Nil
  then show ?case by simp
next
  case (Cons x rest)
  from Cons.prems(1) obtain r where r: "next_stop_of E included x = Inr r"
    by (auto simp: bindE_eq_Inr)
  show ?case
  proof (cases "x = item")
    case True
    with r Cons.prems have loop: "next_stop_loop E included rest (keep_earliest m0 k entry) = Inr m"
      by auto
    from keep_earliest_new obtain e1 where
      e1: "keep_earliest m0 k entry k = Some e1" "expected_time e1 \<le> expected_time entry"
      by blast
    from next_stop_loop_keeps [OF loop e1(1)] e1(2) show ?thesis
      by auto
  next
    case False
    with Cons.prems(2) have mem: "item \<in> set rest" by simp
    show ?thesis
    proof (cases r)
      case None
      with r Cons.prems(1) have "next_stop_loop E included rest m0 = Inr m" by simp
      from Cons.IH [OF this mem Cons.prems(3,4)] show ?thesis .
    next
      case (Some p)
      obtain vid' entry' where p: "p = (vid', entry')" by (cases p)
      with Some r Cons.prems(1) obtain k0 where
        loop: "next_stop_loop E included rest (keep_earliest m0 k0 entry') = Inr m"
        by (auto simp: bindE_eq_Inr)
      from Cons.IH [OF loop mem Cons.prems(3,4)] show ?thesis .
    qed
  qed
qed

lemma next_stop_loop_returns:
  "next_stop_loop E included items m0 = Inr m \<Longrightarrow> item \<in> set items \<Longrightarrow>
     \<exists>r. next_stop_of E included item = Inr r"
proof (induction items arbitrary: m0)
  case Nil
  then show ?case by simp
next
  case (Cons x rest)
  from Cons.prems(1) obtain r where r: "next_stop_of E included x = Inr r"
    by (auto simp: bindE_eq_Inr)
  show ?case
  proof (cases "x = item")
    case True
    with r show ?thesis by blast
  next
    case False
    with Cons.prems(2) have mem: "item \<in> set rest" by simp
    show ?thesis
    proof (cases r)
      case None
      with r Cons.prems(1) have "next_stop_loop E included rest m0 = Inr m" by simp
      from Cons.IH [OF this mem] show ?thesis .
    next
      case (Some p)
      obtain vid' entry' where p: "p = (vid', entry')" by (cases p)
      with Some r Cons.prems(1) obtain k0 where
        loop: "next_stop_loop E included rest (keep_earliest m0 k0 entry') = Inr m"
        by (auto simp: bindE_eq_Inr)
      from Cons.IH [OF loop mem] show ?thesis .
    qed
  qed
qed

text \<open>
  The entry of a prediction is built from its own fields: what the body returns for a
  prediction with a vehicle id whose arrival-else-departure time parses to an instant
  that is not before now is an entry of that vehicle at that instant, and every entry it
  returns is built from such a prediction.
\<close>

lemma next_stop_of_builds:
  assumes "next_stop_of E included item = Inr r"
    and "py_get item ''attributes'' (JObj []) = Inr attrs"
    and "py_get item ''relationships'' (JObj []) = Inr rels"
    and "rel_id rels ''vehicle'' = Inr vid" and "truthy vid"
    and "py_get attrs ''arrival_time'' JNull = Inr pred_arr"
    and "py_get attrs ''departure_time'' JNull = Inr pred_dep"
    and "parse_iso E (py_or pred_arr pred_dep) = Inr (Some t)" and "now E \<le> t"
  shows "\<exists>entry. r = Some (vid, entry) \<and> expected_time entry = t"
  using assms
  by (auto simp: next_stop_of_def bindE_eq_Inr split: if_splits)

lemma next_stop_of_future:
  assumes "next_stop_of E included item = Inr (Some (vid, e))"
  shows "\<exists>attrs rels pred_arr pred_dep.
             py_get item ''attributes'' (JObj []) = Inr attrs
           \<and> py_get item ''relationships'' (JObj []) = Inr rels
           \<and> rel_id rels ''vehicle'' = Inr vid \<and> truthy vid
           \<and> py_get attrs ''arrival_time'' JNull = Inr pred_arr
           \<and> py_get attrs ''departure_time'' JNull = Inr pred_dep
           \<and> parse_iso E (py_or pred_arr pred_dep) = Inr (Some (expected_time e))
           \<and> now E \<le> expected_time e"
  using assms
  by (auto simp: next_stop_of_def bindE_eq_Inr split: if_splits option.splits)

text \<open>A prediction without a time, or with a time before now, builds no entry.\<close>

lemma next_stop_of_unresolved:
  assumes "py_get item ''attributes'' (JObj []) = Inr attrs"
    and "py_get attrs ''arrival_time'' JNull = Inr pred_arr"
    and "py_get attrs ''departure_time'' JNull = Inr pred_dep"
    and "parse_iso E (py_or pred_arr pred_dep) = Inr None
         \<or> (\<exists>t. parse_iso E (py_or pred_arr pred_dep) = Inr (Some t) \<and> t < now E)"
    and "next_stop_of E included item = Inr r"
  shows "r = None"
  using assms
  by (auto simp: next_stop_of_def bindE_eq_Inr split: if_splits)

text \<open>
  Claim C8. A prediction has a resolvable future instant \<open>t\<close> when its arrival-else-departure
  time parses to \<open>t\<close> and \<open>t\<close> is not before now. Where the merger returns, every vehicle
  referenced by such a prediction has an entry, and the expected instant of that entry
  is at most the instant of each such prediction of the vehicle; every entry of the
  mapping carries the instant of one of these predictions of its vehicle, so it carries
  the earliest. A prediction with no resolvable future instant has no part in the
  mapping: a vehicle that has no other prediction has no entry.
\<close>

theorem next_stop_keeps_earliest:
  assumes "next_stop_by_vehicle E payload = Inr by_vehicle"
    and "py_get payload ''error'' JNull = Inr err" and "\<not> truthy err"
    and "py_get payload ''included'' (JList []) = Inr inc"
    and "build_included_lookup inc = Inr included"
    and "py_get payload ''data'' (JList []) = Inr data"
    and "py_iter data = Inr items"
  shows "(\<forall>item \<in> set items. \<forall>attrs rels vid k pred_arr pred_dep t.
            py_get item ''attributes'' (JObj []) = Inr attrs
          \<and> py_get item ''relationships'' (JObj []) = Inr rels
          \<and> rel_id rels ''vehicle'' = Inr vid \<and> truthy vid \<and> py_key vid = Inr k
          \<and> py_get attrs ''arrival_time'' JNull = Inr pred_arr
          \<and> py_get attrs ''departure_time'' JNull = Inr pred_dep
          \<and> parse_iso E (py_or pred_arr pred_dep) = Inr (Some t) \<and> now E \<le> t
          \<longrightarrow> (\<exists>e. by_vehicle k = Some e \<and> expected_time e \<le> t))
       \<and> (\<forall>k e. by_vehicle k = Some e
            \<longrightarrow> (\<exists>item \<in> set items. \<exists>attrs rels vid pred_arr pred_dep.
                    py_get item ''attributes'' (JObj []) = Inr attrs
                  \<and> py_get item ''relationships'' (JObj []) = Inr rels
                  \<and> rel_id rels ''vehicle'' = Inr vid \<and> truthy vid \<and> py_key vid = Inr k
                  \<and> py_get attrs ''arrival_time'' JNull = Inr pred_arr
                  \<and> py_get attrs ''departure_time'' JNull = Inr pred_dep
                  \<and> parse_iso E (py_or pred_arr pred_dep) = Inr (Some (expected_time e))
                  \<and> now E \<le> expected_time e))"
proof -
  from assms have loop: "next_stop_loop E included items Map.empty = Inr by_vehicle"
    by (simp add: next_stop_by_vehicle_def)
  show ?thesis
  proof (intro conjI ballI allI impI)
    fix item attrs rels vid k pred_arr pred_dep t
    assume mem: "item \<in> set items"
      and f: "py_get item ''attributes'' (JObj []) = Inr attrs
          \<and> py_get item ''relationships'' (JObj []) = Inr rels
          \<and> rel_id rels ''vehicle'' = Inr vid \<and> truthy vid \<and> py_key vid = Inr k
          \<and> py_get attrs ''arrival_time'' JNull = Inr pred_arr
          \<and> py_get attrs ''departure_time'' JNull = Inr pred_dep
          \<and> parse_iso E (py_or pred_arr pred_dep) = Inr (Some t) \<and> now E \<le> t"
    from next_stop_loop_returns [OF loop mem] obtain r where
      r: "next_stop_of E included item = Inr r"
      by blast
    from f have "py_get item ''attributes'' (JObj []) = Inr attrs"
      and "py_get item ''relationships'' (JObj []) = Inr rels"
      and "rel_id rels ''vehicle'' = Inr vid" and "truthy vid"
      and "py_get attrs ''arrival_time'' JNull = Inr pred_arr"
      and "py_get attrs ''departure_time'' JNull = Inr pred_dep"
      and "parse_iso E (py_or pred_arr pred_dep) = Inr (Some t)" and "now E \<le> t"
      by simp_all
    then have "\<exists>entry. r = Some (vid, entry) \<and> expected_time entry = t"
      by (rule next_stop_of_builds [OF r])
    then obtain entry where
      entry: "next_stop_of E included item = Inr (Some (vid, entry))" "expected_time entry = t"
      using r by blast
    from f have k: "py_key vid = Inr k"
      by simp
    from next_stop_loop_earliest [OF loop mem entry(1) k] entry(2)
    show "\<exists>e. by_vehicle k = Some e \<and> expected_time e \<le> t"
      by simp
  next
    fix k e
    assume e: "by_vehicle k = Some e"
    from next_stop_loop_from [OF loop e] obtain item vid where
      item: "item \<in> set items" "next_stop_of E included item = Inr (Some (vid, e))"
        "py_key vid = Inr k"
      by auto
    from next_stop_of_future [OF item(2)] item(1,3)
    show "\<exists>item \<in> set items. \<exists>attrs rels vid pred_arr pred_dep.
                    py_get item ''attributes'' (JObj []) = Inr attrs
                  \<and> py_get item ''relationships'' (JObj []) = Inr rels
                  \<and> rel_id rels ''vehicle'' = Inr vid \<and> truthy vid \<and> py_key vid = Inr k
                  \<and> py_get attrs ''arrival_time'' JNull = Inr pred_arr
                  \<and> py_get attrs ''departure_time'' JNull = Inr pred_dep
                  \<and> parse_iso E (py_or pred_arr pred_dep) = Inr (Some (expected_time e))
                  \<and> now E \<le> expected_time e"
      by blast
  qed
qed

text \<open>
  Of the predictions of train R-1 in 12 and in 5 minutes the entry keeps the one in 5
  minutes; the prediction without a time and the one in the past leave no trace. Train
  R-2, predicted by a departure time alone, has its entry; train R-3, predicted in the
  past only, has none.
\<close>

theorem next_stop_keeps_earliest_witness:
  "\<exists>by_vehicle.
      next_stop_by_vehicle example_env next_stop_predictions = Inr by_vehicle
    \<and> by_vehicle (KStr ''R-1'') = Some davis_in_five
    \<and> by_vehicle (KStr ''R-2'') = Some porter_in_three
    \<and> by_vehicle (KStr ''R-3'') = None
    \<and> (\<exists>e. by_vehicle (KStr ''R-1'') = Some e
          \<and> expected_time e \<le> wall_clock 2024 7 1 12 5 0
          \<and> expected_time e \<le> wall_clock 2024 7 1 12 12 0
          \<and> now example_env \<le> expected_time e)
    \<and> (\<exists>e. by_vehicle (KStr ''R-2'') = Some e
          \<and> expected_time e \<le> wall_clock 2024 7 1 12 3 0)"
proof -
  let ?included = "[(KStr ''stop'', KStr ''70063'') \<mapsto> stop_resource ''70063'' ''Davis'',
                   (KStr ''stop'', KStr ''70065'') \<mapsto> stop_resource ''70065'' ''Porter'']"
  let ?items = "[stop_prediction (JStr ''2024-07-01T12:12:00Z'') JNull ''R-1'' ''70065'',
               stop_prediction (JStr ''2024-07-01T12:05:00Z'') JNull ''R-1'' ''70063'',
               stop_prediction JNull JNull ''R-1'' ''70061'',
               stop_prediction (JStr ''2024-07-01T11:58:00Z'') JNull ''R-1'' ''70067'',
               stop_prediction JNull (JStr ''2024-07-01T12:03:00Z'') ''R-2'' ''70065'',
               stop_prediction (JStr ''2024-07-01T11:59:00Z'') JNull ''R-3'' ''70063'']"
  have "(case next_stop_by_vehicle example_env next_stop_predictions of
           Inl e \<Rightarrow> False
         | Inr m \<Rightarrow> m (KStr ''R-1'') = Some davis_in_five
                 \<and> m (KStr ''R-2'') = Some porter_in_three
                 \<and> m (KStr ''R-3'') = None)"
    by code_simp
  then obtain by_vehicle where
    r: "next_stop_by_vehicle example_env next_stop_predictions = Inr by_vehicle"
    and v: "by_vehicle (KStr ''R-1'') = Some davis_in_five"
      "by_vehicle (KStr ''R-2'') = Some porter_in_three"
      "by_vehicle (KStr ''R-3'') = None"
    by (auto split: sum.splits)
  have p: "py_get next_stop_predictions ''error'' JNull = Inr JNull" "\<not> truthy JNull"
    "py_get next_stop_predictions ''included'' (JList []) =
       Inr (JList [stop_resource ''70063'' ''Davis'', stop_resource ''70065'' ''Porter''])"
    "py_get next_stop_predictions ''data'' (JList []) = Inr (JList ?items)"
    "py_iter (JList ?items) = Inr ?items"
    by (simp_all add: next_stop_predictions_def py_get_def)
  have i: "build_included_lookup (JList [stop_resource ''70063'' ''Davis'', stop_resource ''70065'' ''Porter''])
             = Inr ?included"
    by (simp add: build_included_lookup_def py_or_def stop_resource_def py_get_def)
  have fields: "\<And>a d v s.
      py_get (stop_prediction a d v s) ''attributes'' (JObj [])
        = Inr (JObj [(''arrival_time'', a), (''departure_time'', d)])
    \<and> py_get (stop_prediction a d v s) ''relationships'' (JObj [])
        = Inr (JObj [(''vehicle'', JObj [(''data'', JObj [(''id'', JStr v), (''type'', JStr ''vehicle'')])]),
                     (''stop'', JObj [(''data'', JObj [(''id'', JStr s), (''type'', JStr ''stop'')])])])
    \<and> rel_id (JObj [(''vehicle'', JObj [(''data'', JObj [(''id'', JStr v), (''type'', JStr ''vehicle'')])]),
                     (''stop'', JObj [(''data'', JObj [(''id'', JStr s), (''type'', JStr ''stop'')])])])
         ''vehicle'' = Inr (JStr v)
    \<and> py_get (JObj [(''arrival_time'', a), (''departure_time'', d)]) ''arrival_time'' JNull = Inr a
    \<and> py_get (JObj [(''arrival_time'', a), (''departure_time'', d)]) ''departure_time'' JNull = Inr d"
    by (simp add: stop_prediction_def py_get_def rel_id_def py_or_def is_dict_def)
  have times:
    "parse_iso example_env (py_or (JStr ''2024-07-01T12:05:00Z'') JNull) = Inr (Some (wall_clock 2024 7 1 12 5 0))"
    "parse_iso example_env (py_or (JStr ''2024-07-01T12:12:00Z'') JNull) = Inr (Some (wall_clock 2024 7 1 12 12 0))"
    "parse_iso example_env (py_or JNull (JStr ''2024-07-01T12:03:00Z'')) = Inr (Some (wall_clock 2024 7 1 12 3 0))"
    "now example_env \<le> wall_clock 2024 7 1 12 5 0"
    "now example_env \<le> wall_clock 2024 7 1 12 12 0"
    "now example_env \<le> wall_clock 2024 7 1 12 3 0"
    by code_simp+
  have m: "stop_prediction (JStr ''2024-07-01T12:05:00Z'') JNull ''R-1'' ''70063'' \<in> set ?items"
    "stop_prediction (JStr ''2024-07-01T12:12:00Z'') JNull ''R-1'' ''70065'' \<in> set ?items"
    "stop_prediction JNull (JStr ''2024-07-01T12:03:00Z'') ''R-2'' ''70065'' \<in> set ?items"
    by simp_all
  note t = next_stop_keeps_earliest [OF r p(1,2,3) i p(4,5)]
  note first = t [THEN conjunct1, rule_format]
  have future: "\<And>a d v s T.
      v \<noteq> [] \<Longrightarrow> parse_iso example_env (py_or a d) = Inr (Some T) \<Longrightarrow> now example_env \<le> T \<Longrightarrow>
      py_get (stop_prediction a d v s) ''attributes'' (JObj [])
        = Inr (JObj [(''arrival_time'', a), (''departure_time'', d)])
    \<and> py_get (stop_prediction a d v s) ''relationships'' (JObj [])
        = Inr (JObj [(''vehicle'', JObj [(''data'', JObj [(''id'', JStr v), (''type'', JStr ''vehicle'')])]),
                     (''stop'', JObj [(''data'', JObj [(''id'', JStr s), (''type'', JStr ''stop'')])])])
    \<and> rel_id (JObj [(''vehicle'', JObj [(''data'', JObj [(''id'', JStr v), (''type'', JStr ''vehicle'')])]),
                     (''stop'', JObj [(''data'', JObj [(''id'', JStr s), (''type'', JStr ''stop'')])])])
         ''vehicle'' = Inr (JStr v)
    \<and> truthy (JStr v) \<and> py_key (JStr v) = Inr (KStr v)
    \<and> py_get (JObj [(''arrival_time'', a), (''departure_time'', d)]) ''arrival_time'' JNull = Inr a
    \<and> py_get (JObj [(''arrival_time'', a), (''departure_time'', d)]) ''departure_time'' JNull = Inr d
    \<and> parse_iso example_env (py_or a d) = Inr (Some T) \<and> now example_env \<le> T"
    by (simp add: fields)
  have a: "\<exists>e. by_vehicle (KStr ''R-1'') = Some e
      \<and> expected_time e \<le> wall_clock 2024 7 1 12 5 0"
    by (rule first [OF m(1) future [OF _ times(1) times(4)]]) simp
  have b: "\<exists>e. by_vehicle (KStr ''R-1'') = Some e
      \<and> expected_time e \<le> wall_clock 2024 7 1 12 12 0"
    by (rule first [OF m(2) future [OF _ times(2) times(5)]]) simp
  have c: "\<exists>e. by_vehicle (KStr ''R-2'') = Some e
      \<and> expected_time e \<le> wall_clock 2024 7 1 12 3 0"
    by (rule first [OF m(3) future [OF _ times(3) times(6)]]) simp
  from t v(1) have d: "now example_env \<le> expected_time davis_in_five"
    by blast
  from a b c d r v show ?thesis
    by (auto simp: davis_in_five_def)
qed

section \<open>Departures are sorted by time\<close>























section \<open>Shapes\<close>

text \<open>
  Claim C9 says that a shape that decodes under neither encoding is skipped without
  raising. On a payload of two shapes, the first with two good points and the second
  with the latitude \<^verbatim>\<open>abc\<close>, \<^verbatim>\<open>float\<close> raises ValueError in the loop over the points,
  which stands in no \<^verbatim>\<open>try\<close>: both \<^verbatim>\<open>parse_red_line_shape\<close> and
  \<^verbatim>\<open>parse_route_shapes_merged\<close> raise, and the good segment is lost with the request.
\<close>

theorem undecodable_points_raise:
  "parse_red_line_shape example_env bad_points_shapes = Inl ValueError
   \<and> parse_route_shapes_merged example_env bad_points_shapes = Inl ValueError"
  by code_simp

text \<open>
  Where \<^verbatim>\<open>parse_route_shapes_merged\<close> returns, the rest of the claim holds: the merged
  geometry is null exactly when no segment was decoded, and otherwise it is a decoded
  segment with the greatest number of coordinates.
\<close>

lemma longest_from_member: "longest_from best shapes \<in> set (best # shapes)"
  by (induction shapes arbitrary: best) auto

lemma longest_from_ge_best: "length (fst best) \<le> length (fst (longest_from best shapes))"
proof (induction shapes arbitrary: best)
  case Nil
  then show ?case by simp
next
  case (Cons x shapes)
  show ?case
    using Cons.IH [of "if length (fst best) < length (fst x) then x else best"]
    by (auto split: if_splits)
qed

lemma longest_from_longest:
  "s \<in> set (best # shapes) \<Longrightarrow> length (fst s) \<le> length (fst (longest_from best shapes))"
proof (induction shapes arbitrary: best)
  case Nil
  then show ?case by simp
next
  case (Cons x shapes)
  let ?b = "if length (fst best) < length (fst x) then x else best"
  from Cons.prems consider "s = best" | "s = x" | "s \<in> set shapes" by auto
  then show ?case
  proof cases
    case 1
    then show ?thesis
      using longest_from_ge_best [of ?b shapes] by (auto split: if_splits)
  next
    case 2
    then show ?thesis
      using longest_from_ge_best [of ?b shapes] by (auto split: if_splits)
  next
    case 3
    then show ?thesis
      using Cons.IH [of ?b] by simp
  qed
qed

lemma merged_is_longest_segment:
  assumes "parse_route_shapes_merged E shapes_response = Inr merged"
  shows "\<exists>shapes. parse_red_line_shape E shapes_response = Inr shapes
           \<and> (case merged of
                None \<Rightarrow> shapes = []
              | Some seg \<Rightarrow> seg \<in> set shapes
                   \<and> (\<forall>s \<in> set shapes. length (fst s) \<le> length (fst seg)))"
proof -
  from assms obtain shapes where
    shapes: "parse_red_line_shape E shapes_response = Inr shapes"
    and m: "(case shapes of [] \<Rightarrow> Inr None | s # rest \<Rightarrow> Inr (Some (longest_from s rest)))
              = (Inr merged :: error + segment option)"
    by (auto simp: parse_route_shapes_merged_def bindE_eq_Inr)
  show ?thesis
  proof (cases shapes)
    case Nil
    with shapes m show ?thesis by auto
  next
    case (Cons s rest)
    with m have "merged = Some (longest_from s rest)" by simp
    with shapes Cons longest_from_member [of s rest] longest_from_longest [of _ s rest]
    show ?thesis by auto
  qed
qed

end
